theory Spec2Isabelle
  imports Main "HOL-Library.Multiset"
begin

section \<open>Collaborative project management backend (src/main.py)\<close>

text \<open>
  The HTTP handlers of \<^verbatim>\<open>src/main.py\<close> are embedded as functions that take the
  database state and return the response together with the new database state.  A raised
  \<^verbatim>\<open>HTTPException\<close> is the left injection of the response; writes made before
  the exception stay in the returned state, since the handlers use no transaction.

  What the handlers read from their environment is an explicit argument: the value of
  \<^verbatim>\<open>datetime.now(timezone.utc)\<close> at each call site, and the \<^verbatim>\<open>ObjectId\<close>
  the driver generates for each \<^verbatim>\<open>insert_one\<close>.
\<close>

subsection \<open>Errors, timestamps, identifiers\<close>

type_synonym datetime = int

datatype error =
    HTTPException nat string
  | DuplicateKeyError
  | OperationFailure

text \<open>
  A \<^verbatim>\<open>bson.ObjectId\<close> holds a byte string, twelve bytes when the driver
  generates it.  It is represented by the text that \<^verbatim>\<open>str\<close> prints, two
  lower-case hexadecimal digits for each byte; two identifiers are equal exactly when
  these texts are.
\<close>

datatype ObjectId = ObjectId string

fun str_ObjectId :: "ObjectId \<Rightarrow> string" where
  "str_ObjectId (ObjectId h) = h"

definition is_hexdigit :: "char \<Rightarrow> bool" where
  "is_hexdigit c \<longleftrightarrow> c \<in> set ''0123456789abcdefABCDEF''"

definition hex_lower :: "char \<Rightarrow> char" where
  "hex_lower c =
     (if c = CHR ''A'' then CHR ''a'' else if c = CHR ''B'' then CHR ''b''
      else if c = CHR ''C'' then CHR ''c'' else if c = CHR ''D'' then CHR ''d''
      else if c = CHR ''E'' then CHR ''e'' else if c = CHR ''F'' then CHR ''f''
      else c)"

text \<open>
  \<^verbatim>\<open>bytes.fromhex\<close> reads pairs of hexadecimal digits in either case and skips
  ASCII whitespace in front of a pair and at the end; whitespace inside a pair and every
  other character is an error.  The result is given as the lower-case digits of the
  bytes read.
\<close>

definition ascii_space :: "char \<Rightarrow> bool" where
  "ascii_space c \<longleftrightarrow>
     c \<in> set [CHR 0x09, CHR 0x0A, CHR 0x0B, CHR 0x0C, CHR 0x0D, CHR '' '']"

fun fromhex :: "string \<Rightarrow> string option" where
  "fromhex [] = Some []"
| "fromhex [c] = (if ascii_space c then Some [] else None)"
| "fromhex (c # d # cs) =
     (if ascii_space c then fromhex (d # cs)
      else if is_hexdigit c \<and> is_hexdigit d
      then map_option (\<lambda>h. hex_lower c # hex_lower d # h) (fromhex cs)
      else None)"

text \<open>
  \<^verbatim>\<open>oid\<close>: \<^verbatim>\<open>ObjectId(id_str)\<close> accepts a string of 24 characters that
  \<^verbatim>\<open>bytes.fromhex\<close> can read, and the identifier is the bytes read (fewer than
  twelve when whitespace was skipped); anything else raises, and the handler turns that
  into status 400.
\<close>

definition oid :: "string \<Rightarrow> error + ObjectId" where
  "oid id_str =
     (if length id_str = 24
      then (case fromhex id_str of
              Some h \<Rightarrow> Inr (ObjectId h)
            | None \<Rightarrow> Inl (HTTPException 400 ''Invalid id format''))
      else Inl (HTTPException 400 ''Invalid id format''))"

subsection \<open>Documents and collections\<close>

text \<open>
  A stored document is its \<^verbatim>\<open>_id\<close> and its other fields.  \<^verbatim>\<open>serialize\<close>
  replaces \<^verbatim>\<open>_id\<close> by the string field \<^verbatim>\<open>id\<close> and passes
  \<^verbatim>\<open>None\<close> through.
\<close>

record 'a document =
  doc_id :: ObjectId
  doc_fields :: 'a

record 'a public =
  pub_id :: string
  pub_fields :: 'a

definition serialize_doc :: "'a document \<Rightarrow> 'a public" where
  "serialize_doc d = \<lparr>pub_id = str_ObjectId (doc_id d), pub_fields = doc_fields d\<rparr>"

fun serialize :: "'a document option \<Rightarrow> 'a public option" where
  "serialize None = None"
| "serialize (Some d) = Some (serialize_doc d)"

text \<open>
  A collection is the list of its documents in insertion order.  \<^verbatim>\<open>find_one\<close>,
  \<^verbatim>\<open>update_one\<close> and \<^verbatim>\<open>delete_one\<close> act on the first document that
  matches the filter; \<^verbatim>\<open>insert_one\<close> rejects an \<^verbatim>\<open>_id\<close> that is already
  present.
\<close>

type_synonym 'a collection = "'a document list"

definition find_one :: "('a document \<Rightarrow> bool) \<Rightarrow> 'a collection \<Rightarrow> 'a document option" where
  "find_one flt c = List.find flt c"

definition find_many :: "('a document \<Rightarrow> bool) \<Rightarrow> 'a collection \<Rightarrow> 'a document list" where
  "find_many flt c = filter flt c"

definition insert_one :: "ObjectId \<Rightarrow> 'a \<Rightarrow> 'a collection \<Rightarrow> error + 'a collection" where
  "insert_one new_id data c =
     (if new_id \<in> set (map doc_id c) then Inl DuplicateKeyError
      else Inr (c @ [\<lparr>doc_id = new_id, doc_fields = data\<rparr>]))"

fun update_one :: "('a document \<Rightarrow> bool) \<Rightarrow> ('a \<Rightarrow> 'a) \<Rightarrow> 'a collection \<Rightarrow> 'a collection" where
  "update_one flt upd [] = []"
| "update_one flt upd (d # ds) =
     (if flt d then d\<lparr>doc_fields := upd (doc_fields d)\<rparr> # ds else d # update_one flt upd ds)"

fun delete_one :: "('a document \<Rightarrow> bool) \<Rightarrow> 'a collection \<Rightarrow> 'a collection" where
  "delete_one flt [] = []"
| "delete_one flt (d # ds) = (if flt d then ds else d # delete_one flt ds)"

definition delete_many :: "('a document \<Rightarrow> bool) \<Rightarrow> 'a collection \<Rightarrow> 'a collection" where
  "delete_many flt c = filter (\<lambda>d. \<not> flt d) c"

text \<open>\<^verbatim>\<open>$addToSet\<close>: append the value unless the array already holds it.\<close>

definition addToSet :: "'a \<Rightarrow> 'a list \<Rightarrow> 'a list" where
  "addToSet v xs = (if v \<in> set xs then xs else xs @ [v])"

text \<open>
  \<^verbatim>\<open>sort(key, -1)\<close>: descending by the key; documents with equal keys keep their
  collection order.
\<close>

definition sort_desc :: "('a \<Rightarrow> int) \<Rightarrow> 'a list \<Rightarrow> 'a list" where
  "sort_desc k xs = sort_key (\<lambda>x. - k x) xs"

text \<open>
  \<^verbatim>\<open>Cursor.limit\<close>: a limit of 0 is no limit; a negative limit returns as many
  documents as its absolute value (in a single batch).
\<close>

definition limit :: "int \<Rightarrow> 'a list \<Rightarrow> 'a list" where
  "limit n xs = (if n = 0 then xs else take (nat \<bar>n\<bar>) xs)"

subsection \<open>Request bodies and stored fields\<close>

record UserIn =
  username :: string
  email :: string
  emailVerified :: "bool option"
  profilePic :: "string option"
  companyName :: "string option"
  role :: "string option"
  linkedIn :: "string option"
  interests :: "string list"

record User = UserIn +
  user_created_at :: datetime
  user_updated_at :: datetime

record ProjectIn =
  title :: string
  description :: string
  category :: string
  tags :: "string list"
  attachments :: "string list"
  createdBy :: string
  members :: "string list"
  ptype :: "string option"

record Project = ProjectIn +
  created_at :: datetime
  updated_at :: datetime

record ChatIn =
  content :: string
  senderId :: string

record ChatMessage = ChatIn +
  chat_projectId :: string
  timestamp :: datetime

record RequestIn =
  projectId :: string
  senderUserId :: string

record CollaborationRequest = RequestIn +
  status :: string
  createdAt :: datetime

record RespondIn =
  decision :: string
  ownerId :: "string option"

record db =
  user :: "User collection"
  project :: "Project collection"
  chatmessage :: "ChatMessage collection"
  collaborationrequest :: "CollaborationRequest collection"

subsection \<open>Collaboration requests\<close>

definition respond_request ::
  "db \<Rightarrow> datetime \<Rightarrow> string \<Rightarrow> RespondIn \<Rightarrow> (error + string) \<times> db" where
  "respond_request s now request_id body =
     (case oid request_id of
        Inl e \<Rightarrow> (Inl e, s)
      | Inr rid \<Rightarrow>
          (case find_one (\<lambda>d. doc_id d = rid) (collaborationrequest s) of
             None \<Rightarrow> (Inl (HTTPException 404 ''Request not found''), s)
           | Some req \<Rightarrow>
               if decision body \<noteq> ''accepted'' \<and> decision body \<noteq> ''rejected''
               then (Inl (HTTPException 400 ''Invalid decision''), s)
               else
                 let s1 = s\<lparr>collaborationrequest :=
                             update_one (\<lambda>d. doc_id d = doc_id req)
                               (\<lambda>r. r\<lparr>status := decision body\<rparr>) (collaborationrequest s)\<rparr>
                 in if decision body = ''accepted''
                    then (case oid (projectId (doc_fields req)) of
                            Inl e \<Rightarrow> (Inl e, s1)
                          | Inr pid \<Rightarrow>
                              (Inr (decision body),
                               s1\<lparr>project :=
                                    update_one (\<lambda>d. doc_id d = pid)
                                      (\<lambda>p. p\<lparr>members := addToSet (senderUserId (doc_fields req)) (members p),
                                              updated_at := now\<rparr>)
                                      (project s1)\<rparr>))
                    else (Inr (decision body), s1)))"

definition request_collab ::
  "db \<Rightarrow> datetime \<Rightarrow> ObjectId \<Rightarrow> string \<Rightarrow> RequestIn
     \<Rightarrow> (error + CollaborationRequest public option) \<times> db" where
  "request_collab s now new_id project_id r =
     (case find_one (\<lambda>d. projectId (doc_fields d) = project_id
                        \<and> senderUserId (doc_fields d) = senderUserId r
                        \<and> status (doc_fields d) = ''pending'')
             (collaborationrequest s) of
        Some existing \<Rightarrow> (Inr (serialize (Some existing)), s)
      | None \<Rightarrow>
          let data = \<lparr>projectId = project_id, senderUserId = senderUserId r,
                      status = ''pending'', createdAt = now\<rparr>
          in (case insert_one new_id data (collaborationrequest s) of
                Inl e \<Rightarrow> (Inl e, s)
              | Inr c \<Rightarrow>
                  let s1 = s\<lparr>collaborationrequest := c\<rparr>
                  in (Inr (serialize (find_one (\<lambda>d. doc_id d = new_id) (collaborationrequest s1))),
                      s1)))"

subsection \<open>Users\<close>

definition create_or_login_user ::
  "db \<Rightarrow> datetime \<Rightarrow> ObjectId \<Rightarrow> UserIn \<Rightarrow> (error + User public option) \<times> db" where
  "create_or_login_user s now new_id u =
     (case find_one (\<lambda>d. email (doc_fields d) = email u) (user s) of
        Some existing \<Rightarrow>
          let s1 = s\<lparr>user :=
                      update_one (\<lambda>d. doc_id d = doc_id existing)
                        (\<lambda>x. x\<lparr>username := username u, profilePic := profilePic u,
                                companyName := companyName u, role := role u,
                                linkedIn := linkedIn u, interests := interests u,
                                user_updated_at := now\<rparr>)
                        (user s)\<rparr>;
              updated = find_one (\<lambda>d. doc_id d = doc_id existing) (user s1)
          in (Inr (serialize updated), s1)
      | None \<Rightarrow>
          let data = \<lparr>username = username u, email = email u,
                      emailVerified = emailVerified u, profilePic = profilePic u,
                      companyName = companyName u, role = role u, linkedIn = linkedIn u,
                      interests = interests u,
                      user_created_at = now, user_updated_at = now\<rparr>
          in (case insert_one new_id data (user s) of
                Inl e \<Rightarrow> (Inl e, s)
              | Inr c \<Rightarrow>
                  let s1 = s\<lparr>user := c\<rparr>
                  in (Inr (serialize (find_one (\<lambda>d. doc_id d = new_id) (user s1))), s1)))"

subsection \<open>Projects\<close>

text \<open>
  The filter that \<^verbatim>\<open>list_projects\<close> builds is a dictionary with at most the keys
  \<^verbatim>\<open>$or\<close>, \<^verbatim>\<open>category\<close>, \<^verbatim>\<open>tags\<close> and \<^verbatim>\<open>createdBy\<close>;
  a document matches when it matches every entry.  A condition on a field is a plain value
  or \<^verbatim>\<open>{"$regex": p, "$options": "i"}\<close>; on the array field \<^verbatim>\<open>tags\<close>
  it holds when some element satisfies it.

  The regular-expression engine of the server is not part of the repository.  It is a
  parameter: \<open>rx p\<close> is the matcher of pattern \<open>p\<close> under option \<^verbatim>\<open>i\<close>
  (does the pattern match somewhere in the string), or \<open>None\<close> when the server
  rejects the pattern, which fails the whole query.
\<close>

type_synonym regex = "string \<Rightarrow> (string \<Rightarrow> bool) option"

datatype cond = Regex string | Equals string

datatype key = Title | Description | Category | Tags | CreatedBy

datatype clause = Or "(key \<times> cond) list" | Field key cond

type_synonym query = "clause list"

fun key_values :: "key \<Rightarrow> Project \<Rightarrow> string list" where
  "key_values Title p = [title p]"
| "key_values Description p = [description p]"
| "key_values Category p = [category p]"
| "key_values Tags p = tags p"
| "key_values CreatedBy p = [createdBy p]"

fun cond_valid :: "regex \<Rightarrow> cond \<Rightarrow> bool" where
  "cond_valid rx (Regex pat) = (rx pat \<noteq> None)"
| "cond_valid rx (Equals v) = True"

fun cond_holds :: "regex \<Rightarrow> cond \<Rightarrow> string \<Rightarrow> bool" where
  "cond_holds rx (Regex pat) v = (case rx pat of None \<Rightarrow> False | Some m \<Rightarrow> m v)"
| "cond_holds rx (Equals w) v = (v = w)"

definition field_holds :: "regex \<Rightarrow> Project \<Rightarrow> key \<times> cond \<Rightarrow> bool" where
  "field_holds rx p kc = list_ex (cond_holds rx (snd kc)) (key_values (fst kc) p)"

fun clause_valid :: "regex \<Rightarrow> clause \<Rightarrow> bool" where
  "clause_valid rx (Or alts) = list_all (\<lambda>kc. cond_valid rx (snd kc)) alts"
| "clause_valid rx (Field k c) = cond_valid rx c"

fun clause_holds :: "regex \<Rightarrow> Project \<Rightarrow> clause \<Rightarrow> bool" where
  "clause_holds rx p (Or alts) = list_ex (field_holds rx p) alts"
| "clause_holds rx p (Field k c) = field_holds rx p (k, c)"

definition find_query :: "regex \<Rightarrow> query \<Rightarrow> Project collection \<Rightarrow> error + Project collection" where
  "find_query rx qry c =
     (if list_all (clause_valid rx) qry
      then Inr (filter (\<lambda>d. list_all (clause_holds rx (doc_fields d)) qry) c)
      else Inl OperationFailure)"

text \<open>
  The truth value of an optional string, as in \<^verbatim>\<open>if userId and ...\<close>: neither
  \<^verbatim>\<open>None\<close> nor empty.
\<close>

fun truthy :: "string option \<Rightarrow> bool" where
  "truthy None = False"
| "truthy (Some v) = (v \<noteq> [])"

definition list_projects ::
  "regex \<Rightarrow> db \<Rightarrow> string option \<Rightarrow> string option \<Rightarrow> string option \<Rightarrow> string option
     \<Rightarrow> error + Project public list" where
  "list_projects rx s q category_arg interest creator =
     (let query =
            (case q of
               Some v \<Rightarrow> if v \<noteq> []
                 then [Or [(Title, Regex v), (Description, Regex v), (Tags, Regex v)]] else []
             | None \<Rightarrow> [])
          @ (case category_arg of
               Some v \<Rightarrow> if v \<noteq> [] then [Field Category (Regex (''^'' @ v @ ''$''))] else []
             | None \<Rightarrow> [])
          @ (case interest of
               Some v \<Rightarrow> if v \<noteq> [] then [Field Tags (Regex v)] else []
             | None \<Rightarrow> [])
          @ (case creator of
               Some v \<Rightarrow> if v \<noteq> [] then [Field CreatedBy (Equals v)] else []
             | None \<Rightarrow> [])
      in case find_query rx query (project s) of
           Inl e \<Rightarrow> Inl e
         | Inr items \<Rightarrow>
             Inr (map serialize_doc (sort_desc (\<lambda>d. updated_at (doc_fields d)) items)))"

definition create_project ::
  "db \<Rightarrow> datetime \<Rightarrow> ObjectId \<Rightarrow> ProjectIn \<Rightarrow> (error + Project public option) \<times> db" where
  "create_project s now new_id p =
     (let data = \<lparr>title = title p, description = description p, category = category p,
                  tags = tags p, attachments = attachments p, createdBy = createdBy p,
                  members = members p, ptype = ptype p,
                  created_at = now, updated_at = now\<rparr>;
          data1 = (if createdBy p \<noteq> [] \<and> createdBy p \<notin> set (members data)
                   then data\<lparr>members := members data @ [createdBy p]\<rparr> else data)
      in case insert_one new_id data1 (project s) of
           Inl e \<Rightarrow> (Inl e, s)
         | Inr c \<Rightarrow>
             let s1 = s\<lparr>project := c\<rparr>
             in (Inr (serialize (find_one (\<lambda>d. doc_id d = new_id) (project s1))), s1))"

text \<open>The response \<^verbatim>\<open>{"deleted": True}\<close> is the value \<open>True\<close>.\<close>

definition delete_project :: "db \<Rightarrow> string \<Rightarrow> string option \<Rightarrow> (error + bool) \<times> db" where
  "delete_project s project_id userId =
     (case oid project_id of
        Inl e \<Rightarrow> (Inl e, s)
      | Inr pid \<Rightarrow>
          (case find_one (\<lambda>d. doc_id d = pid) (project s) of
             None \<Rightarrow> (Inl (HTTPException 404 ''Project not found''), s)
           | Some pr \<Rightarrow>
               if truthy userId \<and> Some (createdBy (doc_fields pr)) \<noteq> userId
               then (Inl (HTTPException 403 ''Only owner can delete''), s)
               else
                 (Inr True,
                  s\<lparr>project := delete_one (\<lambda>d. doc_id d = doc_id pr) (project s),
                    chatmessage :=
                      delete_many (\<lambda>d. chat_projectId (doc_fields d) = project_id) (chatmessage s),
                    collaborationrequest :=
                      delete_many (\<lambda>d. projectId (doc_fields d) = project_id)
                        (collaborationrequest s)\<rparr>)))"

subsection \<open>Chat\<close>

text \<open>
  Strings are lists of characters with code points below 256.  \<^verbatim>\<open>str.strip\<close>
  removes the characters for which \<^verbatim>\<open>str.isspace\<close> holds from both ends; in this
  range they are 9 to 13, 28 to 32, 133 and 160.
\<close>

definition isspace :: "char \<Rightarrow> bool" where
  "isspace c \<longleftrightarrow>
     (let n = (of_char c :: nat)
      in (9 \<le> n \<and> n \<le> 13) \<or> (28 \<le> n \<and> n \<le> 32) \<or> n = 133 \<or> n = 160)"

definition strip :: "string \<Rightarrow> string" where
  "strip s = rev (dropWhile isspace (rev (dropWhile isspace s)))"

definition endswith :: "string \<Rightarrow> string \<Rightarrow> bool" where
  "endswith s suffix \<longleftrightarrow>
     length suffix \<le> length s \<and> drop (length s - length suffix) s = suffix"

definition get_chat :: "db \<Rightarrow> string \<Rightarrow> int \<Rightarrow> ChatMessage public list" where
  "get_chat s project_id lim =
     (let msgs = limit lim
                   (sort_desc (\<lambda>d. timestamp (doc_fields d))
                      (find_many (\<lambda>d. chat_projectId (doc_fields d) = project_id)
                         (chatmessage s)));
          items = map serialize_doc msgs
      in rev items)"

definition post_chat ::
  "db \<Rightarrow> datetime \<Rightarrow> datetime \<Rightarrow> ObjectId \<Rightarrow> ObjectId \<Rightarrow> string \<Rightarrow> ChatIn
     \<Rightarrow> (error + ChatMessage public option) \<times> db" where
  "post_chat s now bot_now new_id bot_id project_id msg =
     (let data = \<lparr>content = content msg, senderId = senderId msg,
                  chat_projectId = project_id, timestamp = now\<rparr>
      in case insert_one new_id data (chatmessage s) of
           Inl e \<Rightarrow> (Inl e, s)
         | Inr c \<Rightarrow>
             let s1 = s\<lparr>chatmessage := c\<rparr>;
                 inserted = find_one (\<lambda>d. doc_id d = new_id) (chatmessage s1)
             in if content msg \<noteq> [] \<and> endswith (strip (content msg)) ''?''
                then
                  (let bot = \<lparr>content =
                                ''Great question! Let's capture tasks for this and assign owners.'',
                              senderId = ''sim-bot'',
                              chat_projectId = project_id, timestamp = bot_now\<rparr>
                   in case insert_one bot_id bot (chatmessage s1) of
                        Inl e \<Rightarrow> (Inl e, s1)
                      | Inr c2 \<Rightarrow> (Inr (serialize inserted), s1\<lparr>chatmessage := c2\<rparr>))
                else (Inr (serialize inserted), s1))"

subsection \<open>The filters of listProjects, in the words of the specification\<close>

text \<open>
  An absent filter value, and an empty one (\<^verbatim>\<open>if q:\<close>), imposes no constraint.
  \<open>matches rx pat v\<close>: the pattern is accepted and matches in \<open>v\<close>.
\<close>

fun supplied :: "string option \<Rightarrow> (string \<Rightarrow> bool) \<Rightarrow> bool" where
  "supplied None c = True"
| "supplied (Some v) c = (if v = [] then True else c v)"

definition matches :: "regex \<Rightarrow> string \<Rightarrow> string \<Rightarrow> bool" where
  "matches rx pat v = (case rx pat of None \<Rightarrow> False | Some m \<Rightarrow> m v)"

definition patterns_accepted ::
  "regex \<Rightarrow> string option \<Rightarrow> string option \<Rightarrow> string option \<Rightarrow> bool" where
  "patterns_accepted rx q category_arg interest \<longleftrightarrow>
     supplied q (\<lambda>v. rx v \<noteq> None)
     \<and> supplied category_arg (\<lambda>v. rx (''^'' @ v @ ''$'') \<noteq> None)
     \<and> supplied interest (\<lambda>v. rx v \<noteq> None)"

definition selected ::
  "regex \<Rightarrow> string option \<Rightarrow> string option \<Rightarrow> string option \<Rightarrow> string option
     \<Rightarrow> Project \<Rightarrow> bool" where
  "selected rx q category_arg interest creator p \<longleftrightarrow>
     supplied q (\<lambda>v. matches rx v (title p) \<or> matches rx v (description p)
                      \<or> list_ex (matches rx v) (tags p))
     \<and> supplied category_arg (\<lambda>v. matches rx (''^'' @ v @ ''$'') (category p))
     \<and> supplied interest (\<lambda>v. list_ex (matches rx v) (tags p))
     \<and> supplied creator (\<lambda>v. createdBy p = v)"

text \<open>Case-insensitive literal substring: the needle occurs at some position of the text.\<close>

definition ascii_lower :: "char \<Rightarrow> char" where
  "ascii_lower c =
     (case map_of (zip ''ABCDEFGHIJKLMNOPQRSTUVWXYZ'' ''abcdefghijklmnopqrstuvwxyz'') c of
        None \<Rightarrow> c
      | Some l \<Rightarrow> l)"

definition literal_substring_ci :: "string \<Rightarrow> string \<Rightarrow> bool" where
  "literal_substring_ci needle text_arg \<longleftrightarrow>
     list_ex (\<lambda>i. take (length needle) (drop i (map ascii_lower text_arg))
                    = map ascii_lower needle)
       [0..<Suc (length text_arg)]"

subsection \<open>A fragment of the server's regular expressions\<close>

text \<open>
  The patterns of the fragment are an optional leading \<^verbatim>\<open>^\<close>, then letters, digits,
  spaces and dots, then an optional trailing \<^verbatim>\<open>$\<close>.  Under option \<^verbatim>\<open>i\<close> a
  letter matches itself in either case, a digit or a space matches itself, and a dot
  matches any one character but the line feed; \<^verbatim>\<open>^\<close> holds at the start of the
  string and \<^verbatim>\<open>$\<close> at its end or before a final line feed.  The pattern is searched
  for at every position of the string.

  \<open>pcre_i\<close> is \<open>None\<close> on every other pattern, so it stands for the server's engine
  on this fragment only.  It is used to run \<open>list_projects\<close> on concrete inputs.
\<close>

definition is_plain :: "char \<Rightarrow> bool" where
  "is_plain c \<longleftrightarrow>
     c \<in> set ''0123456789ABCDEFGHIJKLMNOPQRSTUVWXYZabcdefghijklmnopqrstuvwxyz ''"

fun match_here :: "string \<Rightarrow> string \<Rightarrow> string option" where
  "match_here [] s = Some s"
| "match_here (p # ps) [] = None"
| "match_here (p # ps) (c # cs) =
     (if (if p = CHR ''.'' then c \<noteq> CHR 0x0A else ascii_lower p = ascii_lower c)
      then match_here ps cs else None)"

definition ends_here :: "bool \<Rightarrow> string \<Rightarrow> string \<Rightarrow> bool" where
  "ends_here to_end ps s =
     (case match_here ps s of
        None \<Rightarrow> False
      | Some rest \<Rightarrow> if to_end then rest = [] \<or> rest = [CHR 0x0A] else True)"

fun search :: "bool \<Rightarrow> string \<Rightarrow> string \<Rightarrow> bool" where
  "search to_end ps [] = ends_here to_end ps []"
| "search to_end ps (c # cs) = (ends_here to_end ps (c # cs) \<or> search to_end ps cs)"

definition pcre_i :: regex where
  "pcre_i pat =
     (let from_start = (pat \<noteq> [] \<and> hd pat = CHR ''^'');
          p1 = (if from_start then tl pat else pat);
          to_end = (p1 \<noteq> [] \<and> last p1 = CHR ''$'');
          ps = (if to_end then butlast p1 else p1)
      in if list_all (\<lambda>c. is_plain c \<or> c = CHR ''.'') ps
         then Some (if from_start then ends_here to_end ps else search to_end ps)
         else None)"

subsection \<open>A small database\<close>

text \<open>
  Two users, two projects, four chat messages and four collaboration requests, used to
  run the handlers on concrete inputs.
\<close>

definition alice_id :: string where "alice_id = ''0000000000000000000000a1''"
definition bob_id :: string where "bob_id = ''0000000000000000000000a2''"
definition tracker_id :: string where "tracker_id = ''0000000000000000000000b1''"
definition design_id :: string where "design_id = ''0000000000000000000000b2''"

definition sample_users :: "User collection" where
  "sample_users =
     [\<lparr>doc_id = ObjectId alice_id,
       doc_fields = \<lparr>username = ''Ava'', email = ''ava@example.com'', emailVerified = Some True,
                     profilePic = None, companyName = None, role = Some ''student'',
                     linkedIn = None, interests = [''AI'', ''Design''],
                     user_created_at = 1, user_updated_at = 1\<rparr>\<rparr>,
      \<lparr>doc_id = ObjectId bob_id,
       doc_fields = \<lparr>username = ''Ben'', email = ''ben@example.com'', emailVerified = Some True,
                     profilePic = None, companyName = None, role = Some ''working'',
                     linkedIn = None, interests = [''Business''],
                     user_created_at = 2, user_updated_at = 2\<rparr>\<rparr>]"

definition sample_projects :: "Project collection" where
  "sample_projects =
     [\<lparr>doc_id = ObjectId tracker_id,
       doc_fields = \<lparr>title = ''Task Tracker'', description = ''Web app'',
                     category = ''Computer Science'', tags = [''React'', ''MongoDB''],
                     attachments = [], createdBy = alice_id, members = [alice_id],
                     ptype = Some ''combined'', created_at = 3, updated_at = 3\<rparr>\<rparr>,
      \<lparr>doc_id = ObjectId design_id,
       doc_fields = \<lparr>title = ''Design Kit'', description = ''abc'',
                     category = ''Design'', tags = [''UI'', ''Figma''],
                     attachments = [], createdBy = bob_id, members = [bob_id],
                     ptype = Some ''combined'', created_at = 4, updated_at = 4\<rparr>\<rparr>]"

definition sample_chat :: "ChatMessage collection" where
  "sample_chat =
     [\<lparr>doc_id = ObjectId ''0000000000000000000000c1'',
       doc_fields = \<lparr>content = ''hello'', senderId = alice_id,
                     chat_projectId = tracker_id, timestamp = 5\<rparr>\<rparr>,
      \<lparr>doc_id = ObjectId ''0000000000000000000000c2'',
       doc_fields = \<lparr>content = ''colours'', senderId = bob_id,
                     chat_projectId = design_id, timestamp = 6\<rparr>\<rparr>,
      \<lparr>doc_id = ObjectId ''0000000000000000000000c3'',
       doc_fields = \<lparr>content = ''next step'', senderId = alice_id,
                     chat_projectId = tracker_id, timestamp = 7\<rparr>\<rparr>,
      \<lparr>doc_id = ObjectId ''0000000000000000000000c4'',
       doc_fields = \<lparr>content = ''done'', senderId = alice_id,
                     chat_projectId = tracker_id, timestamp = 8\<rparr>\<rparr>]"

definition sample_requests :: "CollaborationRequest collection" where
  "sample_requests =
     [\<lparr>doc_id = ObjectId ''0000000000000000000000d1'',
       doc_fields = \<lparr>projectId = tracker_id, senderUserId = bob_id,
                     status = ''rejected'', createdAt = 9\<rparr>\<rparr>,
      \<lparr>doc_id = ObjectId ''0000000000000000000000d2'',
       doc_fields = \<lparr>projectId = tracker_id, senderUserId = bob_id,
                     status = ''pending'', createdAt = 10\<rparr>\<rparr>,
      \<lparr>doc_id = ObjectId ''0000000000000000000000d3'',
       doc_fields = \<lparr>projectId = design_id, senderUserId = alice_id,
                     status = ''pending'', createdAt = 11\<rparr>\<rparr>,
      \<lparr>doc_id = ObjectId ''0000000000000000000000d4'',
       doc_fields = \<lparr>projectId = ''tracker'', senderUserId = bob_id,
                     status = ''pending'', createdAt = 12\<rparr>\<rparr>]"

definition sample_db :: db where
  "sample_db = \<lparr>user = sample_users, project = sample_projects,
                 chatmessage = sample_chat, collaborationrequest = sample_requests\<rparr>"

section \<open>Properties\<close>

subsection \<open>Store operations\<close>

lemmas sample_defs = sample_db_def sample_users_def sample_projects_def sample_chat_def
  sample_requests_def alice_id_def bob_id_def tracker_id_def design_id_def

lemmas oid_defs = oid_def is_hexdigit_def hex_lower_def ascii_space_def

lemma find_one_Some_id:
  "find_one (\<lambda>d. doc_id d = i) c = Some r \<Longrightarrow> doc_id r = i"
  by (induction c) (auto simp: find_one_def split: if_splits)

lemma find_one_update_one_same:
  "find_one (\<lambda>d. doc_id d = i) c = Some r \<Longrightarrow>
   find_one (\<lambda>d. doc_id d = i) (update_one (\<lambda>d. doc_id d = i) upd c)
     = Some (r\<lparr>doc_fields := upd (doc_fields r)\<rparr>)"
  by (induction c) (auto simp: find_one_def)

lemma update_one_no_match:
  "find_one flt c = None \<Longrightarrow> update_one flt upd c = c"
  by (induction c) (auto simp: find_one_def split: if_splits)

lemma map_doc_id_update_one:
  "map doc_id (update_one flt upd c) = map doc_id c"
  by (induction c) auto

subsection \<open>respond\<close>

text \<open>
  C10.  For a well-formed request id that addresses no stored request, respond fails with
  status 404 (NotFound) whatever the decision string is, valid or not, and writes nothing:
  the lookup comes before the validation of the decision.
\<close>

theorem respond_request_absent_not_found:
  assumes "oid request_id = Inr rid"
    and "find_one (\<lambda>d. doc_id d = rid) (collaborationrequest s) = None"
  shows "respond_request s now request_id body
           = (Inl (HTTPException 404 ''Request not found''), s)"
  using assms by (simp add: respond_request_def)

theorem respond_request_absent_not_found_witness:
  "oid ''0000000000000000000000D9'' = Inr (ObjectId ''0000000000000000000000d9'')
   \<and> find_one (\<lambda>d. doc_id d = ObjectId ''0000000000000000000000d9'')
        (collaborationrequest sample_db) = None
   \<and> respond_request sample_db 20 ''0000000000000000000000D9''
        \<lparr>decision = ''maybe'', ownerId = None\<rparr>
      = (Inl (HTTPException 404 ''Request not found''), sample_db)"
proof -
  have h1: "oid ''0000000000000000000000D9'' = Inr (ObjectId ''0000000000000000000000d9'')"
    by (simp add: oid_defs)
  have h2: "find_one (\<lambda>d. doc_id d = ObjectId ''0000000000000000000000d9'')
              (collaborationrequest sample_db) = None"
    by (simp add: find_one_def sample_defs)
  show ?thesis
    using h1 h2 respond_request_absent_not_found [OF h1 h2] by simp
qed

text \<open>
  C6.  For a stored request, respond with a decision other than \<^verbatim>\<open>accepted\<close> and
  \<^verbatim>\<open>rejected\<close> fails with status 400 (InvalidArgument) and returns the database as
  it was: neither the request nor any project is written.
\<close>

theorem respond_request_invalid_decision:
  assumes "oid request_id = Inr rid"
    and "find_one (\<lambda>d. doc_id d = rid) (collaborationrequest s) = Some req"
    and "decision body \<noteq> ''accepted''" and "decision body \<noteq> ''rejected''"
  shows "respond_request s now request_id body
           = (Inl (HTTPException 400 ''Invalid decision''), s)"
  using assms by (simp add: respond_request_def)

theorem respond_request_invalid_decision_witness:
  "oid ''0000000000000000000000d2'' = Inr (ObjectId ''0000000000000000000000d2'')
   \<and> map_option (status \<circ> doc_fields)
        (find_one (\<lambda>d. doc_id d = ObjectId ''0000000000000000000000d2'')
           (collaborationrequest sample_db)) = Some ''pending''
   \<and> respond_request sample_db 20 ''0000000000000000000000d2''
        \<lparr>decision = ''invalid-value'', ownerId = None\<rparr>
      = (Inl (HTTPException 400 ''Invalid decision''), sample_db)"
proof -
  let ?req = "\<lparr>doc_id = ObjectId ''0000000000000000000000d2'',
                doc_fields = \<lparr>projectId = tracker_id, senderUserId = bob_id,
                              status = ''pending'', createdAt = 10\<rparr>\<rparr>"
  have h1: "oid ''0000000000000000000000d2'' = Inr (ObjectId ''0000000000000000000000d2'')"
    by (simp add: oid_defs)
  have h2: "find_one (\<lambda>d. doc_id d = ObjectId ''0000000000000000000000d2'')
              (collaborationrequest sample_db) = Some ?req"
    by (simp add: find_one_def sample_db_def sample_requests_def)
  have h3: "decision \<lparr>decision = ''invalid-value'', ownerId = None\<rparr> \<noteq> ''accepted''"
    and h4: "decision \<lparr>decision = ''invalid-value'', ownerId = None\<rparr> \<noteq> ''rejected''"
    by simp_all
  show ?thesis
    using h1 h2 respond_request_invalid_decision [OF h1 h2 h3 h4] by simp
qed

text \<open>
  C3.  For a stored request in any status, respond with \<^verbatim>\<open>accepted\<close> leaves the
  request stored with status \<^verbatim>\<open>accepted\<close>.  When the request's projectId addresses
  a stored project, the response is \<^verbatim>\<open>accepted\<close> and that project has the sender
  added to its members by set-add and its \<^verbatim>\<open>updated_at\<close> set to now.  The status is
  written first and stays written whatever happens to the project update: when the
  projectId is malformed the call fails with status 400, and when it addresses no project
  the call succeeds, in both cases with the projects unchanged and the status accepted.
\<close>

theorem respond_request_accepted:
  assumes rid: "oid request_id = Inr rid"
    and req: "find_one (\<lambda>d. doc_id d = rid) (collaborationrequest s) = Some req"
    and dec: "decision body = ''accepted''"
  shows "find_one (\<lambda>d. doc_id d = rid)
            (collaborationrequest (snd (respond_request s now request_id body)))
           = Some (req\<lparr>doc_fields := (doc_fields req)\<lparr>status := ''accepted''\<rparr>\<rparr>)
    \<and> (\<forall>pid pr. oid (projectId (doc_fields req)) = Inr pid
          \<and> find_one (\<lambda>d. doc_id d = pid) (project s) = Some pr
        \<longrightarrow> fst (respond_request s now request_id body) = Inr ''accepted''
          \<and> find_one (\<lambda>d. doc_id d = pid) (project (snd (respond_request s now request_id body)))
              = Some (pr\<lparr>doc_fields := (doc_fields pr)
                         \<lparr>members := addToSet (senderUserId (doc_fields req)) (members (doc_fields pr)),
                          updated_at := now\<rparr>\<rparr>))
    \<and> (\<forall>pid. oid (projectId (doc_fields req)) = Inr pid
          \<and> find_one (\<lambda>d. doc_id d = pid) (project s) = None
        \<longrightarrow> fst (respond_request s now request_id body) = Inr ''accepted''
          \<and> project (snd (respond_request s now request_id body)) = project s)
    \<and> (\<forall>e. oid (projectId (doc_fields req)) = Inl e
        \<longrightarrow> fst (respond_request s now request_id body) = Inl e
          \<and> project (snd (respond_request s now request_id body)) = project s)"
proof -
  have i: "doc_id req = rid" using req by (rule find_one_Some_id)
  show ?thesis
    using rid req dec i
    by (auto simp: respond_request_def Let_def find_one_update_one_same update_one_no_match
             split: sum.splits)
qed

theorem respond_request_accepted_witness:
  "map_option (status \<circ> doc_fields)
     (find_one (\<lambda>d. doc_id d = ObjectId ''0000000000000000000000d1'')
        (collaborationrequest sample_db)) = Some ''rejected''
   \<and> map_option (status \<circ> doc_fields)
       (find_one (\<lambda>d. doc_id d = ObjectId ''0000000000000000000000d1'')
          (collaborationrequest (snd (respond_request sample_db 20 ''0000000000000000000000d1''
             \<lparr>decision = ''accepted'', ownerId = None\<rparr>)))) = Some ''accepted''
   \<and> fst (respond_request sample_db 20 ''0000000000000000000000d1''
             \<lparr>decision = ''accepted'', ownerId = None\<rparr>) = Inr ''accepted''
   \<and> map_option (\<lambda>d. (members (doc_fields d), updated_at (doc_fields d)))
       (find_one (\<lambda>d. doc_id d = ObjectId tracker_id)
          (project (snd (respond_request sample_db 20 ''0000000000000000000000d1''
             \<lparr>decision = ''accepted'', ownerId = None\<rparr>)))) = Some ([alice_id, bob_id], 20)
   \<and> map_option (status \<circ> doc_fields)
       (find_one (\<lambda>d. doc_id d = ObjectId ''0000000000000000000000d4'')
          (collaborationrequest (snd (respond_request sample_db 20 ''0000000000000000000000d4''
             \<lparr>decision = ''accepted'', ownerId = None\<rparr>)))) = Some ''accepted''
   \<and> fst (respond_request sample_db 20 ''0000000000000000000000d4''
             \<lparr>decision = ''accepted'', ownerId = None\<rparr>)
       = Inl (HTTPException 400 ''Invalid id format'')"
proof -
  let ?body = "\<lparr>decision = ''accepted'', ownerId = None\<rparr>"
  let ?r1 = "\<lparr>doc_id = ObjectId ''0000000000000000000000d1'',
               doc_fields = \<lparr>projectId = tracker_id, senderUserId = bob_id,
                             status = ''rejected'', createdAt = 9\<rparr>\<rparr>"
  let ?r4 = "\<lparr>doc_id = ObjectId ''0000000000000000000000d4'',
               doc_fields = \<lparr>projectId = ''tracker'', senderUserId = bob_id,
                             status = ''pending'', createdAt = 12\<rparr>\<rparr>"
  let ?pr = "\<lparr>doc_id = ObjectId tracker_id,
               doc_fields = \<lparr>title = ''Task Tracker'', description = ''Web app'',
                     category = ''Computer Science'', tags = [''React'', ''MongoDB''],
                     attachments = [], createdBy = alice_id, members = [alice_id],
                     ptype = Some ''combined'', created_at = 3, updated_at = 3\<rparr>\<rparr>"
  have a1: "oid ''0000000000000000000000d1'' = Inr (ObjectId ''0000000000000000000000d1'')"
    and a4: "oid ''0000000000000000000000d4'' = Inr (ObjectId ''0000000000000000000000d4'')"
    by (simp_all add: oid_defs)
  have b1: "find_one (\<lambda>d. doc_id d = ObjectId ''0000000000000000000000d1'')
              (collaborationrequest sample_db) = Some ?r1"
    and b4: "find_one (\<lambda>d. doc_id d = ObjectId ''0000000000000000000000d4'')
              (collaborationrequest sample_db) = Some ?r4"
    by (simp_all add: find_one_def sample_db_def sample_requests_def)
  have c: "decision ?body = ''accepted''" by simp
  have p1: "oid (projectId (doc_fields ?r1)) = Inr (ObjectId tracker_id)"
    by (simp add: oid_defs tracker_id_def)
  have p2: "find_one (\<lambda>d. doc_id d = ObjectId tracker_id) (project sample_db) = Some ?pr"
    by (simp add: find_one_def sample_db_def sample_projects_def)
  have p4: "oid (projectId (doc_fields ?r4)) = Inl (HTTPException 400 ''Invalid id format'')"
    by (simp add: oid_defs)
  note t1 = respond_request_accepted [OF a1 b1 c, of 20]
  note t4 = respond_request_accepted [OF a4 b4 c, of 20]
  from t1 p1 p2 have
    "find_one (\<lambda>d. doc_id d = ObjectId ''0000000000000000000000d1'')
        (collaborationrequest (snd (respond_request sample_db 20 ''0000000000000000000000d1'' ?body)))
       = Some (?r1\<lparr>doc_fields := (doc_fields ?r1)\<lparr>status := ''accepted''\<rparr>\<rparr>)"
    and "fst (respond_request sample_db 20 ''0000000000000000000000d1'' ?body) = Inr ''accepted''"
    and "find_one (\<lambda>d. doc_id d = ObjectId tracker_id)
           (project (snd (respond_request sample_db 20 ''0000000000000000000000d1'' ?body)))
         = Some (?pr\<lparr>doc_fields := (doc_fields ?pr)
                       \<lparr>members := addToSet (senderUserId (doc_fields ?r1)) (members (doc_fields ?pr)),
                        updated_at := 20\<rparr>\<rparr>)"
    by blast+
  moreover from t4 p4 have
    "find_one (\<lambda>d. doc_id d = ObjectId ''0000000000000000000000d4'')
        (collaborationrequest (snd (respond_request sample_db 20 ''0000000000000000000000d4'' ?body)))
       = Some (?r4\<lparr>doc_fields := (doc_fields ?r4)\<lparr>status := ''accepted''\<rparr>\<rparr>)"
    and "fst (respond_request sample_db 20 ''0000000000000000000000d4'' ?body)
           = Inl (HTTPException 400 ''Invalid id format'')"
    by blast+
  ultimately show ?thesis
    using b1 by (simp add: addToSet_def alice_id_def bob_id_def)
qed

subsection \<open>request\<close>

lemma find_one_None_filter:
  "find_one flt c = None \<longleftrightarrow> filter flt c = []"
  by (induction c) (auto simp: find_one_def)

lemma find_one_append_fresh:
  "i \<notin> set (map doc_id c) \<Longrightarrow>
   find_one (\<lambda>d. doc_id d = i) (c @ [\<lparr>doc_id = i, doc_fields = x\<rparr>])
     = Some \<lparr>doc_id = i, doc_fields = x\<rparr>"
  by (induction c) (auto simp: find_one_def)

lemma request_collab_collection:
  "collaborationrequest (snd (request_collab s now new_id project_id r))
     = collaborationrequest s
   \<or> (find_one (\<lambda>d. projectId (doc_fields d) = project_id
                     \<and> senderUserId (doc_fields d) = senderUserId r
                     \<and> status (doc_fields d) = ''pending'') (collaborationrequest s) = None
      \<and> collaborationrequest (snd (request_collab s now new_id project_id r))
          = collaborationrequest s
            @ [\<lparr>doc_id = new_id,
                doc_fields = \<lparr>projectId = project_id, senderUserId = senderUserId r,
                              status = ''pending'', createdAt = now\<rparr>\<rparr>])"
  by (auto simp: request_collab_def insert_one_def Let_def split: option.splits)

text \<open>
  C4.  If a pending request is stored for the pair (projectId, senderUserId), request
  returns the first such request and leaves the database as it was.  If none is stored
  for the pair, whatever accepted or rejected requests exist, it appends one new request
  with status \<^verbatim>\<open>pending\<close> and \<^verbatim>\<open>createdAt\<close> = now and returns it (the identifier
  the driver generates being unused in the collection).  In both cases a collection with
  at most one pending request for every pair still has at most one for every pair.
\<close>

theorem request_collab_single_pending:
  "(\<forall>existing.
      find_one (\<lambda>d. projectId (doc_fields d) = project_id
                    \<and> senderUserId (doc_fields d) = senderUserId r
                    \<and> status (doc_fields d) = ''pending'') (collaborationrequest s)
        = Some existing
      \<longrightarrow> request_collab s now new_id project_id r = (Inr (Some (serialize_doc existing)), s))
   \<and> (find_one (\<lambda>d. projectId (doc_fields d) = project_id
                    \<and> senderUserId (doc_fields d) = senderUserId r
                    \<and> status (doc_fields d) = ''pending'') (collaborationrequest s) = None
       \<and> new_id \<notin> set (map doc_id (collaborationrequest s))
      \<longrightarrow> request_collab s now new_id project_id r
            = (Inr (Some \<lparr>pub_id = str_ObjectId new_id,
                          pub_fields = \<lparr>projectId = project_id, senderUserId = senderUserId r,
                                        status = ''pending'', createdAt = now\<rparr>\<rparr>),
               s\<lparr>collaborationrequest :=
                   collaborationrequest s
                   @ [\<lparr>doc_id = new_id,
                       doc_fields = \<lparr>projectId = project_id, senderUserId = senderUserId r,
                                     status = ''pending'', createdAt = now\<rparr>\<rparr>]\<rparr>))
   \<and> ((\<forall>p u. length (filter (\<lambda>d. projectId (doc_fields d) = p \<and> senderUserId (doc_fields d) = u
                                  \<and> status (doc_fields d) = ''pending'')
                        (collaborationrequest s)) \<le> 1)
      \<longrightarrow> (\<forall>p u. length (filter (\<lambda>d. projectId (doc_fields d) = p \<and> senderUserId (doc_fields d) = u
                                  \<and> status (doc_fields d) = ''pending'')
                        (collaborationrequest (snd (request_collab s now new_id project_id r))))
                  \<le> 1))"
proof (intro conjI allI impI)
  fix existing
  assume "find_one (\<lambda>d. projectId (doc_fields d) = project_id
                    \<and> senderUserId (doc_fields d) = senderUserId r
                    \<and> status (doc_fields d) = ''pending'') (collaborationrequest s)
            = Some existing"
  then show "request_collab s now new_id project_id r = (Inr (Some (serialize_doc existing)), s)"
    by (simp add: request_collab_def)
next
  assume "find_one (\<lambda>d. projectId (doc_fields d) = project_id
                    \<and> senderUserId (doc_fields d) = senderUserId r
                    \<and> status (doc_fields d) = ''pending'') (collaborationrequest s) = None
          \<and> new_id \<notin> set (map doc_id (collaborationrequest s))"
  then show "request_collab s now new_id project_id r
            = (Inr (Some \<lparr>pub_id = str_ObjectId new_id,
                          pub_fields = \<lparr>projectId = project_id, senderUserId = senderUserId r,
                                        status = ''pending'', createdAt = now\<rparr>\<rparr>),
               s\<lparr>collaborationrequest :=
                   collaborationrequest s
                   @ [\<lparr>doc_id = new_id,
                       doc_fields = \<lparr>projectId = project_id, senderUserId = senderUserId r,
                                     status = ''pending'', createdAt = now\<rparr>\<rparr>]\<rparr>)"
    using find_one_append_fresh [of new_id "collaborationrequest s"]
    by (simp add: request_collab_def insert_one_def Let_def serialize_doc_def)
next
  fix p u
  assume inv: "\<forall>p u. length (filter (\<lambda>d. projectId (doc_fields d) = p
                                  \<and> senderUserId (doc_fields d) = u
                                  \<and> status (doc_fields d) = ''pending'')
                        (collaborationrequest s)) \<le> 1"
  let ?pend = "\<lambda>p u d. projectId (doc_fields d) = p \<and> senderUserId (doc_fields d) = u
                       \<and> status (doc_fields d) = ''pending''"
  let ?c' = "collaborationrequest (snd (request_collab s now new_id project_id r))"
  from request_collab_collection [of s now new_id project_id r]
  show "length (filter (?pend p u) ?c') \<le> 1"
  proof
    assume "?c' = collaborationrequest s"
    with inv show ?thesis by simp
  next
    assume new: "find_one (?pend project_id (senderUserId r)) (collaborationrequest s) = None
      \<and> ?c' = collaborationrequest s
            @ [\<lparr>doc_id = new_id,
                doc_fields = \<lparr>projectId = project_id, senderUserId = senderUserId r,
                              status = ''pending'', createdAt = now\<rparr>\<rparr>]"
    then have none: "filter (?pend project_id (senderUserId r)) (collaborationrequest s) = []"
      by (simp add: find_one_None_filter)
    show ?thesis
    proof (cases "p = project_id \<and> u = senderUserId r")
      case True
      with new none show ?thesis by simp
    next
      case False
      with new inv [rule_format, of p u] show ?thesis by auto
    qed
  qed
qed

theorem request_collab_single_pending_witness:
  "request_collab sample_db 20 (ObjectId ''0000000000000000000000d9'') tracker_id
       \<lparr>projectId = tracker_id, senderUserId = bob_id\<rparr>
     = (Inr (Some \<lparr>pub_id = ''0000000000000000000000d2'',
                   pub_fields = \<lparr>projectId = tracker_id, senderUserId = bob_id,
                                 status = ''pending'', createdAt = 10\<rparr>\<rparr>), sample_db)
   \<and> request_collab sample_db 20 (ObjectId ''0000000000000000000000d9'') design_id
       \<lparr>projectId = design_id, senderUserId = bob_id\<rparr>
     = (Inr (Some \<lparr>pub_id = ''0000000000000000000000d9'',
                   pub_fields = \<lparr>projectId = design_id, senderUserId = bob_id,
                                 status = ''pending'', createdAt = 20\<rparr>\<rparr>),
        sample_db\<lparr>collaborationrequest :=
          sample_requests
          @ [\<lparr>doc_id = ObjectId ''0000000000000000000000d9'',
              doc_fields = \<lparr>projectId = design_id, senderUserId = bob_id,
                            status = ''pending'', createdAt = 20\<rparr>\<rparr>]\<rparr>)
   \<and> list_all (\<lambda>d. length (filter (\<lambda>e. projectId (doc_fields e) = projectId (doc_fields d)
                                      \<and> senderUserId (doc_fields e) = senderUserId (doc_fields d)
                                      \<and> status (doc_fields e) = ''pending'')
                              (collaborationrequest (snd (request_collab sample_db 20
                                 (ObjectId ''0000000000000000000000d9'') design_id
                                 \<lparr>projectId = design_id, senderUserId = bob_id\<rparr>)))) \<le> 1)
       (collaborationrequest (snd (request_collab sample_db 20
          (ObjectId ''0000000000000000000000d9'') design_id
          \<lparr>projectId = design_id, senderUserId = bob_id\<rparr>)))"
proof -
  let ?nid = "ObjectId ''0000000000000000000000d9''"
  let ?pend = "\<lambda>p u d. projectId (doc_fields d) = p \<and> senderUserId (doc_fields d) = u
                       \<and> status (doc_fields d) = ''pending''"
  let ?ex = "\<lparr>doc_id = ObjectId ''0000000000000000000000d2'',
               doc_fields = \<lparr>projectId = tracker_id, senderUserId = bob_id,
                             status = ''pending'', createdAt = 10\<rparr>\<rparr>"
  have f1: "find_one (?pend tracker_id (senderUserId \<lparr>projectId = tracker_id, senderUserId = bob_id\<rparr>))
              (collaborationrequest sample_db) = Some ?ex"
    by (simp add: find_one_def sample_defs)
  have f2: "find_one (?pend design_id (senderUserId \<lparr>projectId = design_id, senderUserId = bob_id\<rparr>))
              (collaborationrequest sample_db) = None
            \<and> ?nid \<notin> set (map doc_id (collaborationrequest sample_db))"
    by (simp add: find_one_def sample_defs)
  have inv: "\<forall>p u. length (filter (?pend p u) (collaborationrequest sample_db)) \<le> 1"
    by (simp add: sample_defs)
  note t1 = request_collab_single_pending
    [of tracker_id "\<lparr>projectId = tracker_id, senderUserId = bob_id\<rparr>" sample_db 20 ?nid]
  note t2 = request_collab_single_pending
    [of design_id "\<lparr>projectId = design_id, senderUserId = bob_id\<rparr>" sample_db 20 ?nid]
  from t1 f1 have r1: "request_collab sample_db 20 ?nid tracker_id
       \<lparr>projectId = tracker_id, senderUserId = bob_id\<rparr> = (Inr (Some (serialize_doc ?ex)), sample_db)"
    by blast
  from t2 f2 have r2: "request_collab sample_db 20 ?nid design_id
       \<lparr>projectId = design_id, senderUserId = bob_id\<rparr>
     = (Inr (Some \<lparr>pub_id = str_ObjectId ?nid,
                   pub_fields = \<lparr>projectId = design_id,
                                 senderUserId = senderUserId \<lparr>projectId = design_id, senderUserId = bob_id\<rparr>,
                                 status = ''pending'', createdAt = 20\<rparr>\<rparr>),
        sample_db\<lparr>collaborationrequest :=
          collaborationrequest sample_db
          @ [\<lparr>doc_id = ?nid,
              doc_fields = \<lparr>projectId = design_id,
                            senderUserId = senderUserId \<lparr>projectId = design_id, senderUserId = bob_id\<rparr>,
                            status = ''pending'', createdAt = 20\<rparr>\<rparr>]\<rparr>)"
    by blast
  from t2 inv have r3: "\<forall>p u. length (filter (?pend p u)
        (collaborationrequest (snd (request_collab sample_db 20 ?nid design_id
           \<lparr>projectId = design_id, senderUserId = bob_id\<rparr>)))) \<le> 1"
    by blast
  have r3': "list_all (\<lambda>d. length (filter (?pend (projectId (doc_fields d)) (senderUserId (doc_fields d)))
        (collaborationrequest (snd (request_collab sample_db 20 ?nid design_id
           \<lparr>projectId = design_id, senderUserId = bob_id\<rparr>)))) \<le> 1)
       (collaborationrequest (snd (request_collab sample_db 20 ?nid design_id
          \<lparr>projectId = design_id, senderUserId = bob_id\<rparr>)))"
    unfolding list_all_iff using r3 by blast
  show ?thesis
    using r1 r2 r3' by (simp add: serialize_doc_def sample_db_def)
qed

subsection \<open>loginOrCreate\<close>

lemma find_one_in_set:
  "x \<in> set c \<Longrightarrow> \<exists>r. find_one (\<lambda>d. doc_id d = doc_id x) c = Some r"
  by (induction c) (auto simp: find_one_def)

lemma find_one_Some_set:
  "find_one flt c = Some r \<Longrightarrow> r \<in> set c \<and> flt r"
  by (induction c) (auto simp: find_one_def split: if_splits)

lemma find_one_email_update_one:
  assumes "\<And>x. email (upd x) = email x"
  shows "map_option doc_id (find_one (\<lambda>d. email (doc_fields d) = e) (update_one flt upd c))
           = map_option doc_id (find_one (\<lambda>d. email (doc_fields d) = e) c)"
  using assms by (induction c) (auto simp: find_one_def)

lemma find_one_append_new:
  "find_one flt c = None \<Longrightarrow> flt x \<Longrightarrow> find_one flt (c @ [x]) = Some x"
  by (induction c) (auto simp: find_one_def split: if_splits)

text \<open>The update path: taken whenever a user with the email is stored.\<close>

lemma create_or_login_user_existing:
  assumes "find_one (\<lambda>d. email (doc_fields d) = email u) (user s) = Some existing"
  shows "\<exists>d. fst (create_or_login_user s now new_id u) = Inr (Some d)
             \<and> pub_id d = str_ObjectId (doc_id existing)
             \<and> username (pub_fields d) = username u
             \<and> profilePic (pub_fields d) = profilePic u
             \<and> companyName (pub_fields d) = companyName u
             \<and> role (pub_fields d) = role u
             \<and> linkedIn (pub_fields d) = linkedIn u
             \<and> interests (pub_fields d) = interests u
             \<and> user_updated_at (pub_fields d) = now"
    and "snd (create_or_login_user s now new_id u)
           = s\<lparr>user :=
                 update_one (\<lambda>d. doc_id d = doc_id existing)
                   (\<lambda>x. x\<lparr>username := username u, profilePic := profilePic u,
                           companyName := companyName u, role := role u,
                           linkedIn := linkedIn u, interests := interests u,
                           user_updated_at := now\<rparr>)
                   (user s)\<rparr>"
    and "map doc_id (user (snd (create_or_login_user s now new_id u))) = map doc_id (user s)"
    and "map_option doc_id
           (find_one (\<lambda>d. email (doc_fields d) = email u)
              (user (snd (create_or_login_user s now new_id u)))) = Some (doc_id existing)"
proof -
  let ?upd = "\<lambda>x::User. x\<lparr>username := username u, profilePic := profilePic u,
                           companyName := companyName u, role := role u,
                           linkedIn := linkedIn u, interests := interests u,
                           user_updated_at := now\<rparr>"
  let ?c = "update_one (\<lambda>d. doc_id d = doc_id existing) ?upd (user s)"
  have res: "create_or_login_user s now new_id u
               = (Inr (serialize (find_one (\<lambda>d. doc_id d = doc_id existing) ?c)), s\<lparr>user := ?c\<rparr>)"
    using assms by (simp add: create_or_login_user_def Let_def)
  from assms have "existing \<in> set (user s)" by (simp add: find_one_Some_set)
  then obtain r where r: "find_one (\<lambda>d. doc_id d = doc_id existing) (user s) = Some r"
    using find_one_in_set by blast
  then have "find_one (\<lambda>d. doc_id d = doc_id existing) ?c
               = Some (r\<lparr>doc_fields := ?upd (doc_fields r)\<rparr>)"
    by (rule find_one_update_one_same)
  moreover have "doc_id r = doc_id existing" using r by (rule find_one_Some_id)
  ultimately show "\<exists>d. fst (create_or_login_user s now new_id u) = Inr (Some d)
             \<and> pub_id d = str_ObjectId (doc_id existing)
             \<and> username (pub_fields d) = username u
             \<and> profilePic (pub_fields d) = profilePic u
             \<and> companyName (pub_fields d) = companyName u
             \<and> role (pub_fields d) = role u
             \<and> linkedIn (pub_fields d) = linkedIn u
             \<and> interests (pub_fields d) = interests u
             \<and> user_updated_at (pub_fields d) = now"
    by (simp add: res serialize_doc_def)
  show "snd (create_or_login_user s now new_id u) = s\<lparr>user := ?c\<rparr>"
    by (simp add: res)
  show "map doc_id (user (snd (create_or_login_user s now new_id u))) = map doc_id (user s)"
    by (simp add: res map_doc_id_update_one)
  have "map_option doc_id (find_one (\<lambda>d. email (doc_fields d) = email u) ?c)
          = map_option doc_id (find_one (\<lambda>d. email (doc_fields d) = email u) (user s))"
    by (rule find_one_email_update_one) simp
  with assms show "map_option doc_id
           (find_one (\<lambda>d. email (doc_fields d) = email u)
              (user (snd (create_or_login_user s now new_id u)))) = Some (doc_id existing)"
    by (simp add: res)
qed

text \<open>The insert path: no user with the email is stored and the new identifier is unused.\<close>

lemma create_or_login_user_new:
  assumes "find_one (\<lambda>d. email (doc_fields d) = email u) (user s) = None"
    and "new_id \<notin> set (map doc_id (user s))"
  shows "\<exists>d. fst (create_or_login_user s now new_id u) = Inr (Some d)
             \<and> pub_id d = str_ObjectId new_id"
    and "map_option doc_id
           (find_one (\<lambda>d. email (doc_fields d) = email u)
              (user (snd (create_or_login_user s now new_id u)))) = Some new_id"
  using assms find_one_append_fresh [of new_id "user s"]
  by (simp_all add: create_or_login_user_def insert_one_def Let_def serialize_doc_def
        find_one_append_new)

text \<open>
  C1.  Two successive calls of loginOrCreate with the same email (the other fields of the
  two payloads may differ, and the first call may find the user or create it with an
  unused identifier) both succeed and return documents with the same id.  The second
  call finds a stored user with that email and takes the update path on it: the database
  it leaves is the one the first call left with one \<^verbatim>\<open>update_one\<close> on that user's
  identifier, which overwrites username, profilePic, companyName, role, linkedIn,
  interests and \<^verbatim>\<open>updated_at\<close> with the second payload's values and the second
  call's time; the document it returns has that identifier and these values.  No user is
  inserted: the list of stored user identifiers is as the first call left it.
\<close>

theorem create_or_login_user_same_id:
  assumes em: "email u2 = email u1"
    and fresh: "new_id1 \<notin> set (map doc_id (user s))"
  shows "\<exists>d1 d2 existing.
           fst (create_or_login_user s now1 new_id1 u1) = Inr (Some d1)
         \<and> fst (create_or_login_user (snd (create_or_login_user s now1 new_id1 u1)) now2 new_id2 u2)
             = Inr (Some d2)
         \<and> pub_id d1 = pub_id d2
         \<and> find_one (\<lambda>d. email (doc_fields d) = email u2)
             (user (snd (create_or_login_user s now1 new_id1 u1))) = Some existing
         \<and> pub_id d2 = str_ObjectId (doc_id existing)
         \<and> snd (create_or_login_user (snd (create_or_login_user s now1 new_id1 u1)) now2 new_id2 u2)
             = (snd (create_or_login_user s now1 new_id1 u1))
                 \<lparr>user :=
                    update_one (\<lambda>d. doc_id d = doc_id existing)
                      (\<lambda>x. x\<lparr>username := username u2, profilePic := profilePic u2,
                              companyName := companyName u2, role := role u2,
                              linkedIn := linkedIn u2, interests := interests u2,
                              user_updated_at := now2\<rparr>)
                      (user (snd (create_or_login_user s now1 new_id1 u1)))\<rparr>
         \<and> username (pub_fields d2) = username u2
         \<and> profilePic (pub_fields d2) = profilePic u2
         \<and> companyName (pub_fields d2) = companyName u2
         \<and> role (pub_fields d2) = role u2
         \<and> linkedIn (pub_fields d2) = linkedIn u2
         \<and> interests (pub_fields d2) = interests u2
         \<and> user_updated_at (pub_fields d2) = now2
         \<and> map doc_id (user (snd (create_or_login_user
               (snd (create_or_login_user s now1 new_id1 u1)) now2 new_id2 u2)))
             = map doc_id (user (snd (create_or_login_user s now1 new_id1 u1)))"
proof -
  let ?s1 = "snd (create_or_login_user s now1 new_id1 u1)"
  have "\<exists>i d1. fst (create_or_login_user s now1 new_id1 u1) = Inr (Some d1)
          \<and> pub_id d1 = str_ObjectId i
          \<and> map_option doc_id (find_one (\<lambda>d. email (doc_fields d) = email u1) (user ?s1)) = Some i"
  proof (cases "find_one (\<lambda>d. email (doc_fields d) = email u1) (user s)")
    case None
    from create_or_login_user_new [OF None fresh, of now1] show ?thesis by blast
  next
    case (Some existing)
    from create_or_login_user_existing (1,4) [OF Some, of now1 new_id1] show ?thesis by blast
  qed
  then obtain i d1 where d1: "fst (create_or_login_user s now1 new_id1 u1) = Inr (Some d1)"
    and i1: "pub_id d1 = str_ObjectId i"
    and f: "map_option doc_id (find_one (\<lambda>d. email (doc_fields d) = email u1) (user ?s1)) = Some i"
    by blast
  from f obtain ex where ex: "find_one (\<lambda>d. email (doc_fields d) = email u2) (user ?s1) = Some ex"
    and i2: "doc_id ex = i"
    by (auto simp: em)
  from create_or_login_user_existing (1) [OF ex, of now2 new_id2]
  obtain d2 where d2: "fst (create_or_login_user ?s1 now2 new_id2 u2) = Inr (Some d2)"
    and p2: "pub_id d2 = str_ObjectId (doc_id ex)"
    and v2: "username (pub_fields d2) = username u2" "profilePic (pub_fields d2) = profilePic u2"
      "companyName (pub_fields d2) = companyName u2" "role (pub_fields d2) = role u2"
      "linkedIn (pub_fields d2) = linkedIn u2" "interests (pub_fields d2) = interests u2"
      "user_updated_at (pub_fields d2) = now2"
    by blast
  note st = create_or_login_user_existing (2) [OF ex, of now2 new_id2]
  note ids = create_or_login_user_existing (3) [OF ex, of now2 new_id2]
  have "pub_id d1 = pub_id d2" using i1 p2 i2 by simp
  with d1 d2 ex p2 st v2 ids show ?thesis by blast
qed

theorem create_or_login_user_same_id_witness:
  "fst (create_or_login_user sample_db 20 (ObjectId ''0000000000000000000000a9'')
          \<lparr>username = ''Cara'', email = ''cara@example.com'', emailVerified = Some False,
           profilePic = None, companyName = None, role = None, linkedIn = None,
           interests = []\<rparr>)
     = Inr (Some \<lparr>pub_id = ''0000000000000000000000a9'',
                  pub_fields = \<lparr>username = ''Cara'', email = ''cara@example.com'',
                     emailVerified = Some False, profilePic = None, companyName = None,
                     role = None, linkedIn = None, interests = [],
                     user_created_at = 20, user_updated_at = 20\<rparr>\<rparr>)
   \<and> create_or_login_user
        (snd (create_or_login_user sample_db 20 (ObjectId ''0000000000000000000000a9'')
           \<lparr>username = ''Cara'', email = ''cara@example.com'', emailVerified = Some False,
            profilePic = None, companyName = None, role = None, linkedIn = None,
            interests = []\<rparr>))
        21 (ObjectId ''0000000000000000000000aa'')
        \<lparr>username = ''Cara B'', email = ''cara@example.com'', emailVerified = Some True,
         profilePic = None, companyName = None, role = Some ''student'', linkedIn = None,
         interests = [''Physics'']\<rparr>
     = (Inr (Some \<lparr>pub_id = ''0000000000000000000000a9'',
                   pub_fields = \<lparr>username = ''Cara B'', email = ''cara@example.com'',
                      emailVerified = Some False, profilePic = None, companyName = None,
                      role = Some ''student'', linkedIn = None, interests = [''Physics''],
                      user_created_at = 20, user_updated_at = 21\<rparr>\<rparr>),
        sample_db\<lparr>user := sample_users
          @ [\<lparr>doc_id = ObjectId ''0000000000000000000000a9'',
              doc_fields = \<lparr>username = ''Cara B'', email = ''cara@example.com'',
                      emailVerified = Some False, profilePic = None, companyName = None,
                      role = Some ''student'', linkedIn = None, interests = [''Physics''],
                      user_created_at = 20, user_updated_at = 21\<rparr>\<rparr>]\<rparr>)"
proof -
  let ?u1 = "\<lparr>username = ''Cara'', email = ''cara@example.com'', emailVerified = Some False,
           profilePic = None, companyName = None, role = None, linkedIn = None,
           interests = []\<rparr>"
  let ?u2 = "\<lparr>username = ''Cara B'', email = ''cara@example.com'', emailVerified = Some True,
             profilePic = None, companyName = None, role = Some ''student'', linkedIn = None,
             interests = [''Physics'']\<rparr>"
  let ?n1 = "ObjectId ''0000000000000000000000a9''"
  let ?n2 = "ObjectId ''0000000000000000000000aa''"
  have em: "email ?u2 = email ?u1" by simp
  have fresh: "?n1 \<notin> set (map doc_id (user sample_db))"
    by (simp add: sample_defs)
  from create_or_login_user_same_id [OF em fresh, of 20 21 ?n2]
  obtain d1 d2 where
    "fst (create_or_login_user sample_db 20 ?n1 ?u1) = Inr (Some d1)"
    "fst (create_or_login_user (snd (create_or_login_user sample_db 20 ?n1 ?u1)) 21 ?n2 ?u2)
       = Inr (Some d2)"
    "pub_id d1 = pub_id d2"
    by blast
  moreover have s1: "create_or_login_user sample_db 20 ?n1 ?u1
    = (Inr (Some \<lparr>pub_id = ''0000000000000000000000a9'',
                  pub_fields = \<lparr>username = ''Cara'', email = ''cara@example.com'',
                     emailVerified = Some False, profilePic = None, companyName = None,
                     role = None, linkedIn = None, interests = [],
                     user_created_at = 20, user_updated_at = 20\<rparr>\<rparr>),
       sample_db\<lparr>user := sample_users @ [\<lparr>doc_id = ?n1,
          doc_fields = \<lparr>username = ''Cara'', email = ''cara@example.com'',
                     emailVerified = Some False, profilePic = None, companyName = None,
                     role = None, linkedIn = None, interests = [],
                     user_created_at = 20, user_updated_at = 20\<rparr>\<rparr>]\<rparr>)"
    by (simp add: create_or_login_user_def insert_one_def find_one_def Let_def serialize_doc_def
          sample_defs)
  ultimately show ?thesis
    by (simp add: s1 create_or_login_user_def find_one_def Let_def serialize_doc_def sample_defs)
qed

subsection \<open>createProject\<close>

text \<open>
  C2, as the code has it.  For a payload whose createdBy is not the empty string (and an
  unused generated identifier), createProject stores one new project and returns it; its
  members are the input members when they already contain createdBy, and the input
  members followed by createdBy otherwise, so createdBy is an element of members in the
  document stored and returned.
\<close>

theorem create_project_owner_is_member:
  assumes owner: "createdBy p \<noteq> []"
    and fresh: "new_id \<notin> set (map doc_id (project s))"
  shows "\<exists>d. create_project s now new_id p
               = (Inr (Some (serialize_doc d)), s\<lparr>project := project s @ [d]\<rparr>)
           \<and> doc_id d = new_id
           \<and> createdBy (doc_fields d) = createdBy p
           \<and> createdBy (doc_fields d) \<in> set (members (doc_fields d))
           \<and> members (doc_fields d)
               = (if createdBy p \<in> set (members p) then members p
                  else members p @ [createdBy p])"
proof -
  let ?ms = "if createdBy p \<in> set (members p) then members p else members p @ [createdBy p]"
  let ?d = "\<lparr>doc_id = new_id,
              doc_fields = \<lparr>title = title p, description = description p,
                 category = category p, tags = tags p, attachments = attachments p,
                 createdBy = createdBy p, members = ?ms, ptype = ptype p,
                 created_at = now, updated_at = now\<rparr>\<rparr>"
  have "create_project s now new_id p
          = (Inr (Some (serialize_doc ?d)), s\<lparr>project := project s @ [?d]\<rparr>)"
    using assms find_one_append_fresh [of new_id "project s"]
    by (simp add: create_project_def insert_one_def Let_def)
  moreover have "createdBy (doc_fields ?d) \<in> set (members (doc_fields ?d))" by simp
  ultimately show ?thesis
    by (intro exI [of _ ?d]) simp
qed

theorem create_project_owner_is_member_witness:
  "create_project sample_db 20 (ObjectId ''0000000000000000000000b9'')
      \<lparr>title = ''Lab'', description = ''Physics'', category = ''Physics'', tags = [],
       attachments = [], createdBy = alice_id, members = [bob_id], ptype = Some ''solo''\<rparr>
     = (Inr (Some \<lparr>pub_id = ''0000000000000000000000b9'',
                   pub_fields = \<lparr>title = ''Lab'', description = ''Physics'',
                      category = ''Physics'', tags = [], attachments = [],
                      createdBy = alice_id, members = [bob_id, alice_id],
                      ptype = Some ''solo'', created_at = 20, updated_at = 20\<rparr>\<rparr>),
        sample_db\<lparr>project := sample_projects
          @ [\<lparr>doc_id = ObjectId ''0000000000000000000000b9'',
              doc_fields = \<lparr>title = ''Lab'', description = ''Physics'',
                      category = ''Physics'', tags = [], attachments = [],
                      createdBy = alice_id, members = [bob_id, alice_id],
                      ptype = Some ''solo'', created_at = 20, updated_at = 20\<rparr>\<rparr>]\<rparr>)"
proof -
  let ?p = "\<lparr>title = ''Lab'', description = ''Physics'', category = ''Physics'', tags = [],
       attachments = [], createdBy = alice_id, members = [bob_id], ptype = Some ''solo''\<rparr>"
  let ?n = "ObjectId ''0000000000000000000000b9''"
  have owner: "createdBy ?p \<noteq> []" by (simp add: alice_id_def)
  have fresh: "?n \<notin> set (map doc_id (project sample_db))" by (simp add: sample_defs)
  have eq: "create_project sample_db 20 ?n ?p
     = (Inr (Some \<lparr>pub_id = ''0000000000000000000000b9'',
                   pub_fields = \<lparr>title = ''Lab'', description = ''Physics'',
                      category = ''Physics'', tags = [], attachments = [],
                      createdBy = alice_id, members = [bob_id, alice_id],
                      ptype = Some ''solo'', created_at = 20, updated_at = 20\<rparr>\<rparr>),
        sample_db\<lparr>project := sample_projects
          @ [\<lparr>doc_id = ObjectId ''0000000000000000000000b9'',
              doc_fields = \<lparr>title = ''Lab'', description = ''Physics'',
                      category = ''Physics'', tags = [], attachments = [],
                      createdBy = alice_id, members = [bob_id, alice_id],
                      ptype = Some ''solo'', created_at = 20, updated_at = 20\<rparr>\<rparr>]\<rparr>)"
    by (simp add: create_project_def insert_one_def find_one_def Let_def serialize_doc_def
          sample_defs)
  from create_project_owner_is_member [OF owner fresh, of 20] eq
  show ?thesis by fast
qed

text \<open>
  Counterexample to C2 as stated, for a payload whose createdBy is the empty string: the guard
  \<^verbatim>\<open>p.createdBy and ...\<close> skips the append, and the project is stored and returned
  with createdBy outside its members.
\<close>

theorem create_project_empty_owner_counterexample:
  "create_project sample_db 20 (ObjectId ''0000000000000000000000b9'')
      \<lparr>title = ''Lab'', description = ''Physics'', category = ''Physics'', tags = [],
       attachments = [], createdBy = '''', members = [bob_id], ptype = Some ''solo''\<rparr>
     = (Inr (Some \<lparr>pub_id = ''0000000000000000000000b9'',
                   pub_fields = \<lparr>title = ''Lab'', description = ''Physics'',
                      category = ''Physics'', tags = [], attachments = [],
                      createdBy = '''', members = [bob_id],
                      ptype = Some ''solo'', created_at = 20, updated_at = 20\<rparr>\<rparr>),
        sample_db\<lparr>project := sample_projects
          @ [\<lparr>doc_id = ObjectId ''0000000000000000000000b9'',
              doc_fields = \<lparr>title = ''Lab'', description = ''Physics'',
                      category = ''Physics'', tags = [], attachments = [],
                      createdBy = '''', members = [bob_id],
                      ptype = Some ''solo'', created_at = 20, updated_at = 20\<rparr>\<rparr>]\<rparr>)
   \<and> '''' \<notin> set [bob_id]"
  by (simp add: create_project_def insert_one_def find_one_def Let_def serialize_doc_def
        sample_defs)

subsection \<open>deleteProject\<close>





text \<open>
  The cascade filters on the id string of the call (\<^verbatim>\<open>{"projectId": project_id}\<close>),
  not on the string form of the identifier of the project found.  Called with the
  upper-case spelling of the id, deleteProject finds and deletes the project and leaves
  its three chat messages and its two collaboration requests stored.
\<close>

lemma delete_project_other_spelling:
  "oid ''0000000000000000000000B1'' = Inr (ObjectId tracker_id)
   \<and> fst (delete_project sample_db ''0000000000000000000000B1'' None) = Inr True
   \<and> find_one (\<lambda>d. doc_id d = ObjectId tracker_id)
        (project (snd (delete_project sample_db ''0000000000000000000000B1'' None))) = None
   \<and> chatmessage (snd (delete_project sample_db ''0000000000000000000000B1'' None))
        = sample_chat
   \<and> collaborationrequest (snd (delete_project sample_db ''0000000000000000000000B1'' None))
        = sample_requests
   \<and> length (filter (\<lambda>d. chat_projectId (doc_fields d) = tracker_id) sample_chat) = 3
   \<and> length (filter (\<lambda>d. projectId (doc_fields d) = tracker_id) sample_requests) = 2"
  by (simp add: delete_project_def delete_many_def oid_defs find_one_def sample_defs)

subsection \<open>postChat\<close>

lemma strip_Nil: "strip [] = []"
  by (simp add: strip_def)

lemma endswith_Nil: "\<not> endswith [] ''?''"
  by (simp add: endswith_def)

text \<open>
  C7.  With unused generated identifiers, postChat appends the posted message with
  timestamp = now and returns it.  It appends after it one more message, from sender
  \<^verbatim>\<open>sim-bot\<close> with the canned content and its own timestamp, exactly when the
  stripped content ends with a question mark; nothing else is stored.  So the number of
  stored messages of the project grows by two in that case and by one otherwise, and the
  response is the posted message in both.
\<close>

theorem post_chat_auto_reply:
  assumes f1: "new_id \<notin> set (map doc_id (chatmessage s))"
    and f2: "bot_id \<notin> set (map doc_id (chatmessage s))"
    and ne: "bot_id \<noteq> new_id"
  shows "fst (post_chat s now bot_now new_id bot_id project_id msg)
           = Inr (Some \<lparr>pub_id = str_ObjectId new_id,
                         pub_fields = \<lparr>content = content msg, senderId = senderId msg,
                                       chat_projectId = project_id, timestamp = now\<rparr>\<rparr>)
    \<and> snd (post_chat s now bot_now new_id bot_id project_id msg)
         = s\<lparr>chatmessage :=
               chatmessage s
               @ [\<lparr>doc_id = new_id,
                   doc_fields = \<lparr>content = content msg, senderId = senderId msg,
                                 chat_projectId = project_id, timestamp = now\<rparr>\<rparr>]
               @ (if endswith (strip (content msg)) ''?''
                  then [\<lparr>doc_id = bot_id,
                         doc_fields =
                           \<lparr>content =
                              ''Great question! Let's capture tasks for this and assign owners.'',
                            senderId = ''sim-bot'',
                            chat_projectId = project_id, timestamp = bot_now\<rparr>\<rparr>]
                  else [])\<rparr>
    \<and> length (filter (\<lambda>d. chat_projectId (doc_fields d) = project_id)
                (chatmessage (snd (post_chat s now bot_now new_id bot_id project_id msg))))
         = length (filter (\<lambda>d. chat_projectId (doc_fields d) = project_id) (chatmessage s))
           + (if endswith (strip (content msg)) ''?'' then 2 else 1)"
proof -
  let ?orig = "\<lparr>doc_id = new_id,
                 doc_fields = \<lparr>content = content msg, senderId = senderId msg,
                               chat_projectId = project_id, timestamp = now\<rparr>\<rparr>"
  let ?bot = "\<lparr>doc_id = bot_id,
                doc_fields =
                  \<lparr>content = ''Great question! Let's capture tasks for this and assign owners.'',
                   senderId = ''sim-bot'',
                   chat_projectId = project_id, timestamp = bot_now\<rparr>\<rparr>"
  have ins1: "insert_one new_id (doc_fields ?orig) (chatmessage s) = Inr (chatmessage s @ [?orig])"
    using f1 by (simp add: insert_one_def)
  have ins2: "insert_one bot_id (doc_fields ?bot) (chatmessage s @ [?orig])
                = Inr (chatmessage s @ [?orig, ?bot])"
    using f2 ne by (simp add: insert_one_def)
  have found: "find_one (\<lambda>d. doc_id d = new_id) (chatmessage s @ [?orig]) = Some ?orig"
    using f1 by (rule find_one_append_fresh)
  have cond: "(content msg \<noteq> [] \<and> endswith (strip (content msg)) ''?'')
                = endswith (strip (content msg)) ''?''"
    using strip_Nil endswith_Nil by (cases "content msg") auto
  show ?thesis
  proof (cases "endswith (strip (content msg)) ''?''")
    case True
    then have "post_chat s now bot_now new_id bot_id project_id msg
                 = (Inr (Some (serialize_doc ?orig)), s\<lparr>chatmessage := chatmessage s @ [?orig, ?bot]\<rparr>)"
      using ins1 ins2 found cond by (simp add: post_chat_def Let_def)
    with True show ?thesis by (simp add: serialize_doc_def)
  next
    case False
    then have "post_chat s now bot_now new_id bot_id project_id msg
                 = (Inr (Some (serialize_doc ?orig)), s\<lparr>chatmessage := chatmessage s @ [?orig]\<rparr>)"
      using ins1 found cond by (simp add: post_chat_def Let_def)
    with False show ?thesis by (simp add: serialize_doc_def)
  qed
qed

theorem post_chat_auto_reply_witness:
  "fst (post_chat sample_db 20 21 (ObjectId ''0000000000000000000000c8'')
          (ObjectId ''0000000000000000000000c9'') ''0000000000000000000000b9''
          \<lparr>content = ''What should we build? '', senderId = alice_id\<rparr>)
     = Inr (Some \<lparr>pub_id = ''0000000000000000000000c8'',
                  pub_fields = \<lparr>content = ''What should we build? '', senderId = alice_id,
                     chat_projectId = ''0000000000000000000000b9'', timestamp = 20\<rparr>\<rparr>)
   \<and> map (\<lambda>d. (senderId (doc_fields d), timestamp (doc_fields d)))
       (filter (\<lambda>d. chat_projectId (doc_fields d) = ''0000000000000000000000b9'')
          (chatmessage (snd (post_chat sample_db 20 21 (ObjectId ''0000000000000000000000c8'')
             (ObjectId ''0000000000000000000000c9'') ''0000000000000000000000b9''
             \<lparr>content = ''What should we build? '', senderId = alice_id\<rparr>))))
     = [(alice_id, 20), (''sim-bot'', 21)]
   \<and> map (\<lambda>d. (senderId (doc_fields d), timestamp (doc_fields d)))
       (filter (\<lambda>d. chat_projectId (doc_fields d) = ''0000000000000000000000b9'')
          (chatmessage (snd (post_chat sample_db 20 21 (ObjectId ''0000000000000000000000c8'')
             (ObjectId ''0000000000000000000000c9'') ''0000000000000000000000b9''
             \<lparr>content = ''Let's build it.'', senderId = alice_id\<rparr>))))
     = [(alice_id, 20)]"
proof -
  let ?n = "ObjectId ''0000000000000000000000c8''"
  let ?b = "ObjectId ''0000000000000000000000c9''"
  have f1: "?n \<notin> set (map doc_id (chatmessage sample_db))"
    and f2: "?b \<notin> set (map doc_id (chatmessage sample_db))"
    and ne: "?b \<noteq> ?n"
    by (simp_all add: sample_defs)
  have q: "endswith (strip ''What should we build? '') ''?''"
    by (simp add: endswith_def strip_def isspace_def)
  have nq: "\<not> endswith (strip ''Let's build it.'') ''?''"
    by (simp add: endswith_def strip_def isspace_def)
  have none: "filter (\<lambda>d. chat_projectId (doc_fields d) = ''0000000000000000000000b9'')
                (chatmessage sample_db) = []"
    by (simp add: sample_defs)
  note t1 = post_chat_auto_reply [OF f1 f2 ne, of 20 21 "''0000000000000000000000b9''"
    "\<lparr>content = ''What should we build? '', senderId = alice_id\<rparr>"]
  note t2 = post_chat_auto_reply [OF f1 f2 ne, of 20 21 "''0000000000000000000000b9''"
    "\<lparr>content = ''Let's build it.'', senderId = alice_id\<rparr>"]
  show ?thesis
    using t1 t2 q nq none by simp
qed

subsection \<open>getChat\<close>

lemma sort_desc_mset: "mset (sort_desc k xs) = mset xs"
  by (simp add: sort_desc_def)

lemma sort_desc_sorted: "sorted_wrt (\<lambda>a b. k b \<le> k a) (sort_desc k xs)"
proof -
  have "sorted (map (\<lambda>x. - k x) (sort_desc k xs))"
    unfolding sort_desc_def by (rule sorted_sort_key)
  then show ?thesis by (simp add: sorted_wrt_map)
qed

lemma sorted_wrt_take_drop:
  assumes "sorted_wrt R xs"
  shows "\<forall>a\<in>set (take n xs). \<forall>b\<in>set (drop n xs). R a b"
proof -
  from assms have "sorted_wrt R (take n xs @ drop n xs)" by simp
  then show ?thesis unfolding sorted_wrt_append by blast
qed

lemma rev_take_ascending:
  assumes "sorted_wrt (\<lambda>a b. k b \<le> k a) xs"
  shows "sorted (map k (rev (take n xs)))"
proof -
  from assms have "sorted_wrt (\<lambda>a b. k b \<le> k a) (take n xs)"
    by (rule sorted_wrt_take)
  then have "sorted_wrt (\<lambda>a b. k a \<le> k b) (rev (take n xs))"
    by (simp add: sorted_wrt_rev)
  then show ?thesis by (simp add: sorted_wrt_map)
qed

text \<open>
  C8, as the code has it.  For a positive limit n, getChat returns at most n messages,
  as many as the project has when it has fewer, ordered by non-decreasing timestamp; they
  are messages of the project, and every message of the project that is left out is no
  newer than every message returned.
\<close>

theorem get_chat_newest_chronological:
  assumes pos: "0 < n"
  shows "length (get_chat s project_id n) \<le> nat n
    \<and> length (get_chat s project_id n)
        = min (nat n)
            (length (filter (\<lambda>d. chat_projectId (doc_fields d) = project_id) (chatmessage s)))
    \<and> sorted (map (\<lambda>m. timestamp (pub_fields m)) (get_chat s project_id n))
    \<and> (\<exists>kept rest.
          get_chat s project_id n = map serialize_doc kept
        \<and> mset kept + mset rest
            = mset (filter (\<lambda>d. chat_projectId (doc_fields d) = project_id) (chatmessage s))
        \<and> (\<forall>k\<in>set kept. \<forall>r\<in>set rest.
              timestamp (doc_fields r) \<le> timestamp (doc_fields k)))"
proof -
  let ?ts = "\<lambda>d::ChatMessage document. timestamp (doc_fields d)"
  let ?all = "filter (\<lambda>d. chat_projectId (doc_fields d) = project_id) (chatmessage s)"
  let ?srt = "sort_desc ?ts ?all"
  let ?kept = "rev (take (nat n) ?srt)"
  let ?rest = "drop (nat n) ?srt"
  have res: "get_chat s project_id n = map serialize_doc ?kept"
    using pos by (simp add: get_chat_def limit_def find_many_def Let_def rev_map)
  have len: "length ?srt = length ?all"
    using sort_desc_mset [of ?ts ?all] by (metis size_mset)
  have desc: "sorted_wrt (\<lambda>a b. ?ts b \<le> ?ts a) ?srt"
    by (rule sort_desc_sorted)
  have c1: "length (get_chat s project_id n) = min (nat n) (length ?all)"
    by (simp add: res len min.commute)
  have "sorted (map ?ts ?kept)"
    using desc by (rule rev_take_ascending)
  then have c2: "sorted (map (\<lambda>m. timestamp (pub_fields m)) (get_chat s project_id n))"
    by (simp add: res serialize_doc_def comp_def)
  have "mset (take (nat n) ?srt) + mset (drop (nat n) ?srt) = mset ?srt"
    by (metis append_take_drop_id mset_append)
  then have c3: "mset ?kept + mset ?rest = mset ?all"
    by (simp add: sort_desc_mset)
  have c4: "\<forall>k\<in>set ?kept. \<forall>r\<in>set ?rest. ?ts r \<le> ?ts k"
    using sorted_wrt_take_drop [OF desc, of "nat n"] by simp
  have c5: "\<exists>kept rest.
          get_chat s project_id n = map serialize_doc kept
        \<and> mset kept + mset rest = mset ?all
        \<and> (\<forall>k\<in>set kept. \<forall>r\<in>set rest. ?ts r \<le> ?ts k)"
    using res c3 c4 by blast
  from c1 have c0: "length (get_chat s project_id n) \<le> nat n" by simp
  from c0 c1 c2 c5 show ?thesis by blast
qed

theorem get_chat_newest_chronological_witness:
  "get_chat sample_db tracker_id 2
     = [\<lparr>pub_id = ''0000000000000000000000c3'',
         pub_fields = \<lparr>content = ''next step'', senderId = alice_id,
                       chat_projectId = tracker_id, timestamp = 7\<rparr>\<rparr>,
        \<lparr>pub_id = ''0000000000000000000000c4'',
         pub_fields = \<lparr>content = ''done'', senderId = alice_id,
                       chat_projectId = tracker_id, timestamp = 8\<rparr>\<rparr>]
   \<and> length (get_chat sample_db tracker_id 2) \<le> nat 2"
proof -
  have "(0::int) < 2" by simp
  from get_chat_newest_chronological [OF this, of sample_db tracker_id]
  have "length (get_chat sample_db tracker_id 2) \<le> nat 2" by blast
  moreover have "get_chat sample_db tracker_id 2
     = [\<lparr>pub_id = ''0000000000000000000000c3'',
         pub_fields = \<lparr>content = ''next step'', senderId = alice_id,
                       chat_projectId = tracker_id, timestamp = 7\<rparr>\<rparr>,
        \<lparr>pub_id = ''0000000000000000000000c4'',
         pub_fields = \<lparr>content = ''done'', senderId = alice_id,
                       chat_projectId = tracker_id, timestamp = 8\<rparr>\<rparr>]"
    by (simp add: get_chat_def limit_def find_many_def sort_desc_def serialize_doc_def
          Let_def sample_defs)
  ultimately show ?thesis by blast
qed

text \<open>
  Counterexample to C8 as stated, at limit 0, which the cursor takes as no limit: the three messages
  of the project are all returned.
\<close>

theorem get_chat_limit_zero_counterexample:
  "map pub_id (get_chat sample_db tracker_id 0)
     = [''0000000000000000000000c1'', ''0000000000000000000000c3'', ''0000000000000000000000c4'']
   \<and> \<not> length (get_chat sample_db tracker_id 0) \<le> nat 0"
  by (simp add: get_chat_def limit_def find_many_def sort_desc_def serialize_doc_def
        Let_def sample_defs)

subsection \<open>listProjects\<close>

lemma cond_holds_Regex: "cond_holds rx (Regex pat) = matches rx pat"
  by (rule ext) (simp add: matches_def)

text \<open>
  C9, as the code has it.  The values of q, category and interest are used as regular
  expressions under option \<^verbatim>\<open>i\<close>, not as literal text.  When the server accepts
  the patterns supplied, listProjects returns exactly the stored projects that satisfy
  every supplied filter, sorted by \<^verbatim>\<open>updated_at\<close> descending: q matches in the title
  or in the description or in some tag; \<^verbatim>\<open>^category$\<close> matches in the category;
  interest matches in some tag; creator equals createdBy.  A filter that is absent or
  the empty string imposes no constraint.
\<close>

theorem list_projects_selected_sorted:
  assumes ok: "patterns_accepted rx q category_arg interest"
  shows "\<exists>items.
           list_projects rx s q category_arg interest creator = Inr (map serialize_doc items)
         \<and> mset items
             = filter_mset (\<lambda>d. selected rx q category_arg interest creator (doc_fields d))
                 (mset (project s))
         \<and> sorted_wrt (\<lambda>a b. updated_at (doc_fields b) \<le> updated_at (doc_fields a)) items"
proof -
  let ?A = "case q of
              Some v \<Rightarrow> if v \<noteq> []
                then [Or [(Title, Regex v), (Description, Regex v), (Tags, Regex v)]] else []
            | None \<Rightarrow> []"
  let ?B = "case category_arg of
              Some v \<Rightarrow> if v \<noteq> [] then [Field Category (Regex (''^'' @ v @ ''$''))] else []
            | None \<Rightarrow> []"
  let ?C = "case interest of
              Some v \<Rightarrow> if v \<noteq> [] then [Field Tags (Regex v)] else []
            | None \<Rightarrow> []"
  let ?D = "case creator of
              Some v \<Rightarrow> if v \<noteq> [] then [Field CreatedBy (Equals v)] else []
            | None \<Rightarrow> []"
  let ?sel = "\<lambda>d. selected rx q category_arg interest creator (doc_fields d)"
  have vA: "list_all (clause_valid rx) ?A = supplied q (\<lambda>v. rx v \<noteq> None)"
    by (cases q) simp_all
  have vB: "list_all (clause_valid rx) ?B
              = supplied category_arg (\<lambda>v. rx (''^'' @ v @ ''$'') \<noteq> None)"
    by (cases category_arg) simp_all
  have vC: "list_all (clause_valid rx) ?C = supplied interest (\<lambda>v. rx v \<noteq> None)"
    by (cases interest) simp_all
  have vD: "list_all (clause_valid rx) ?D"
    by (cases creator) simp_all
  have valid: "list_all (clause_valid rx) (?A @ ?B @ ?C @ ?D)"
    using ok unfolding patterns_accepted_def list_all_append vA vB vC using vD by simp
  have hA: "\<And>p. list_all (clause_holds rx p) ?A
              = supplied q (\<lambda>v. matches rx v (title p) \<or> matches rx v (description p)
                               \<or> list_ex (matches rx v) (tags p))"
    by (cases q) (simp_all add: field_holds_def cond_holds_Regex)
  have hB: "\<And>p. list_all (clause_holds rx p) ?B
              = supplied category_arg (\<lambda>v. matches rx (''^'' @ v @ ''$'') (category p))"
    by (cases category_arg) (simp_all add: field_holds_def cond_holds_Regex)
  have hC: "\<And>p. list_all (clause_holds rx p) ?C
              = supplied interest (\<lambda>v. list_ex (matches rx v) (tags p))"
    by (cases interest) (simp_all add: field_holds_def cond_holds_Regex)
  have hD: "\<And>p. list_all (clause_holds rx p) ?D = supplied creator (\<lambda>v. createdBy p = v)"
    by (cases creator) (simp_all add: field_holds_def)
  have holds: "\<And>p. list_all (clause_holds rx p) (?A @ ?B @ ?C @ ?D)
                 = selected rx q category_arg interest creator p"
    unfolding list_all_append hA hB hC hD selected_def by simp
  let ?items = "sort_desc (\<lambda>d. updated_at (doc_fields d)) (filter ?sel (project s))"
  have res: "list_projects rx s q category_arg interest creator = Inr (map serialize_doc ?items)"
    unfolding list_projects_def Let_def find_query_def
    by (simp only: valid holds if_True sum.case)
  have m: "mset ?items = filter_mset ?sel (mset (project s))"
    by (simp add: sort_desc_mset)
  have srt: "sorted_wrt (\<lambda>a b. updated_at (doc_fields b) \<le> updated_at (doc_fields a)) ?items"
    by (rule sort_desc_sorted)
  from res m srt show ?thesis by blast
qed

lemmas pcre_defs = pcre_i_def is_plain_def ends_here_def ascii_lower_def

theorem list_projects_selected_sorted_witness:
  "patterns_accepted pcre_i (Some ''react'') (Some ''computer science'') (Some ''MONGO'')
   \<and> list_projects pcre_i sample_db (Some ''react'') (Some ''computer science'')
        (Some ''MONGO'') (Some alice_id)
     = Inr [\<lparr>pub_id = tracker_id,
             pub_fields = \<lparr>title = ''Task Tracker'', description = ''Web app'',
                     category = ''Computer Science'', tags = [''React'', ''MongoDB''],
                     attachments = [], createdBy = alice_id, members = [alice_id],
                     ptype = Some ''combined'', created_at = 3, updated_at = 3\<rparr>\<rparr>]
   \<and> map pub_id (case list_projects pcre_i sample_db None None None None of
                    Inl e \<Rightarrow> [] | Inr items \<Rightarrow> items)
     = [design_id, tracker_id]"
proof -
  have ok: "patterns_accepted pcre_i (Some ''react'') (Some ''computer science'') (Some ''MONGO'')"
    by (simp add: patterns_accepted_def pcre_defs)
  have eq: "list_projects pcre_i sample_db (Some ''react'') (Some ''computer science'')
        (Some ''MONGO'') (Some alice_id)
     = Inr [\<lparr>pub_id = tracker_id,
             pub_fields = \<lparr>title = ''Task Tracker'', description = ''Web app'',
                     category = ''Computer Science'', tags = [''React'', ''MongoDB''],
                     attachments = [], createdBy = alice_id, members = [alice_id],
                     ptype = Some ''combined'', created_at = 3, updated_at = 3\<rparr>\<rparr>]"
    by (simp add: list_projects_def find_query_def field_holds_def sort_desc_def
          serialize_doc_def Let_def pcre_defs sample_defs)
  have all: "map pub_id (case list_projects pcre_i sample_db None None None None of
                    Inl e \<Rightarrow> [] | Inr items \<Rightarrow> items) = [design_id, tracker_id]"
    by (simp add: list_projects_def find_query_def sort_desc_def serialize_doc_def Let_def
          sample_defs)
  from list_projects_selected_sorted [OF ok, of sample_db "Some alice_id"]
  obtain items where "list_projects pcre_i sample_db (Some ''react'')
        (Some ''computer science'') (Some ''MONGO'') (Some alice_id)
      = Inr (map serialize_doc items)"
    by blast
  with ok eq all show ?thesis by simp
qed

text \<open>
  Counterexample to C9 as stated, for a value of q with a regular-expression metacharacter: the dot
  of \<^verbatim>\<open>a.c\<close> matches any character, so the project whose description is
  \<^verbatim>\<open>abc\<close> is returned although \<^verbatim>\<open>a.c\<close> is a literal substring
  neither of its title nor of its description nor of one of its tags.
\<close>

theorem list_projects_regex_counterexample:
  "map (\<lambda>p. (title (pub_fields p), description (pub_fields p), tags (pub_fields p)))
     (case list_projects pcre_i sample_db (Some ''a.c'') None None None of
        Inl e \<Rightarrow> [] | Inr items \<Rightarrow> items)
     = [(''Design Kit'', ''abc'', [''UI'', ''Figma''])]
   \<and> \<not> literal_substring_ci ''a.c'' ''Design Kit''
   \<and> \<not> literal_substring_ci ''a.c'' ''abc''
   \<and> \<not> list_ex (literal_substring_ci ''a.c'') [''UI'', ''Figma'']"
  by (simp add: list_projects_def find_query_def field_holds_def sort_desc_def
        serialize_doc_def Let_def pcre_defs literal_substring_ci_def sample_defs)

text \<open>
  On a pattern of letters, digits and spaces only, the engine of the fragment is the
  case-insensitive literal substring test.
\<close>

lemma match_here_plain:
  "CHR ''.'' \<notin> set ps \<Longrightarrow>
   (match_here ps s \<noteq> None) = (take (length ps) (map ascii_lower s) = map ascii_lower ps)"
proof (induction ps arbitrary: s)
  case Nil
  then show ?case by simp
next
  case (Cons p ps)
  then show ?case by (cases s) auto
qed

lemma search_positions:
  "search to_end ps s = (\<exists>i\<le>length s. ends_here to_end ps (drop i s))"
proof (induction s)
  case Nil
  then show ?case by simp
next
  case (Cons c cs)
  have "(\<exists>i\<le>Suc (length cs). ends_here to_end ps (drop i (c # cs)))
          = (ends_here to_end ps (c # cs) \<or> (\<exists>j\<le>length cs. ends_here to_end ps (drop j cs)))"
  proof
    assume "\<exists>i\<le>Suc (length cs). ends_here to_end ps (drop i (c # cs))"
    then obtain i where i: "i \<le> Suc (length cs)" "ends_here to_end ps (drop i (c # cs))"
      by blast
    show "ends_here to_end ps (c # cs) \<or> (\<exists>j\<le>length cs. ends_here to_end ps (drop j cs))"
    proof (cases i)
      case 0
      with i show ?thesis by simp
    next
      case (Suc j)
      with i have "j \<le> length cs \<and> ends_here to_end ps (drop j cs)" by simp
      then show ?thesis by blast
    qed
  next
    assume "ends_here to_end ps (c # cs) \<or> (\<exists>j\<le>length cs. ends_here to_end ps (drop j cs))"
    then show "\<exists>i\<le>Suc (length cs). ends_here to_end ps (drop i (c # cs))"
    proof
      assume "ends_here to_end ps (c # cs)"
      then have "0 \<le> Suc (length cs) \<and> ends_here to_end ps (drop 0 (c # cs))" by simp
      then show ?thesis by blast
    next
      assume "\<exists>j\<le>length cs. ends_here to_end ps (drop j cs)"
      then obtain j where "j \<le> length cs" "ends_here to_end ps (drop j cs)" by blast
      then have "Suc j \<le> Suc (length cs) \<and> ends_here to_end ps (drop (Suc j) (c # cs))"
        by simp
      then show ?thesis by blast
    qed
  qed
  with Cons show ?case by simp
qed

lemma pcre_i_plain:
  assumes "list_all is_plain pat"
  shows "pcre_i pat = Some (literal_substring_ci pat)"
proof -
  have "\<not> is_plain (CHR ''.'')" and "\<not> is_plain (CHR ''^'')" and "\<not> is_plain (CHR ''$'')"
    by (simp_all add: is_plain_def)
  with assms have nd: "CHR ''.'' \<notin> set pat" and nc: "CHR ''^'' \<notin> set pat"
    and ne: "CHR ''$'' \<notin> set pat"
    unfolding list_all_iff by blast+
  have h: "(pat \<noteq> [] \<and> hd pat = CHR ''^'') = False"
    using nc by (cases pat) auto
  have "\<not> (pat \<noteq> [] \<and> last pat = CHR ''$'')"
  proof
    assume a: "pat \<noteq> [] \<and> last pat = CHR ''$''"
    then have "pat \<noteq> []" by simp
    then have "last pat \<in> set pat" by (rule last_in_set)
    with a ne show False by simp
  qed
  then have l: "(pat \<noteq> [] \<and> last pat = CHR ''$'') = False" by simp
  have ok: "list_all (\<lambda>c. is_plain c \<or> c = CHR ''.'') pat"
    using assms by (simp add: list_all_iff)
  have "pcre_i pat = Some (search False pat)"
    unfolding pcre_i_def Let_def h if_False l by (simp only: ok if_True)
  moreover have "search False pat = literal_substring_ci pat"
  proof (rule ext)
    fix s
    have e: "\<And>t. ends_here False pat t
               = (take (length pat) (map ascii_lower t) = map ascii_lower pat)"
    proof -
      fix t
      have "ends_here False pat t = (match_here pat t \<noteq> None)"
        by (simp add: ends_here_def split: option.splits)
      then show "ends_here False pat t
               = (take (length pat) (map ascii_lower t) = map ascii_lower pat)"
        by (simp only: match_here_plain [OF nd])
    qed
    show "search False pat s = literal_substring_ci pat s"
      unfolding search_positions literal_substring_ci_def list_ex_iff e drop_map
      by (auto simp: Bex_def le_eq_less_or_eq)
  qed
  ultimately show ?thesis by simp
qed

end
